theory Spec2Isabelle
  imports Main "HOL-Library.Char_ord" "HOL-Library.List_Lexorder"
begin

section \<open>Python text and JSON values\<close>

text \<open>
  Text is a \<^typ>\<open>string\<close> whose characters are the code points below 256. Whitespace
  is what \<^verbatim>\<open>str.isspace\<close> accepts there, and \<^verbatim>\<open>str.lower\<close> and \<^verbatim>\<open>str.upper\<close>
  map the ASCII and the Latin-1 letters as Python does.
\<close>

definition ascii_uppercase :: string where
  "ascii_uppercase = ''ABCDEFGHIJKLMNOPQRSTUVWXYZ''"

definition ascii_lowercase :: string where
  "ascii_lowercase = ''abcdefghijklmnopqrstuvwxyz''"

definition digits :: string where
  "digits = ''0123456789''"

text \<open>The upper-case letters U+00C0 to U+00DE (without the sign U+00D7).\<close>

definition latin1_uppercase :: string where
  "latin1_uppercase =
     [CHR 0xC0, CHR 0xC1, CHR 0xC2, CHR 0xC3, CHR 0xC4, CHR 0xC5, CHR 0xC6, CHR 0xC7,
      CHR 0xC8, CHR 0xC9, CHR 0xCA, CHR 0xCB, CHR 0xCC, CHR 0xCD, CHR 0xCE, CHR 0xCF,
      CHR 0xD0, CHR 0xD1, CHR 0xD2, CHR 0xD3, CHR 0xD4, CHR 0xD5, CHR 0xD6,
      CHR 0xD8, CHR 0xD9, CHR 0xDA, CHR 0xDB, CHR 0xDC, CHR 0xDD, CHR 0xDE]"

text \<open>Their lower-case forms, U+00E0 to U+00FE (without the sign U+00F7).\<close>

definition latin1_lowercase :: string where
  "latin1_lowercase =
     [CHR 0xE0, CHR 0xE1, CHR 0xE2, CHR 0xE3, CHR 0xE4, CHR 0xE5, CHR 0xE6, CHR 0xE7,
      CHR 0xE8, CHR 0xE9, CHR 0xEA, CHR 0xEB, CHR 0xEC, CHR 0xED, CHR 0xEE, CHR 0xEF,
      CHR 0xF0, CHR 0xF1, CHR 0xF2, CHR 0xF3, CHR 0xF4, CHR 0xF5, CHR 0xF6,
      CHR 0xF8, CHR 0xF9, CHR 0xFA, CHR 0xFB, CHR 0xFC, CHR 0xFD, CHR 0xFE]"

text \<open>
  The characters below 256 for which \<^verbatim>\<open>str.isspace\<close> holds: the ASCII controls
  0x09 to 0x0D and 0x1C to 0x1F, the space, U+0085 and U+00A0.
\<close>

definition whitespace :: string where
  "whitespace = [CHR 0x09, CHR 0x0A, CHR 0x0B, CHR 0x0C, CHR 0x0D,
                 CHR 0x1C, CHR 0x1D, CHR 0x1E, CHR 0x1F, CHR 0x20, CHR 0x85, CHR 0xA0]"

definition isspace :: "char \<Rightarrow> bool" where
  "isspace c = (c \<in> set whitespace)"

definition lower_char :: "char \<Rightarrow> char" where
  "lower_char c =
     (case map_of (zip (ascii_uppercase @ latin1_uppercase) (ascii_lowercase @ latin1_lowercase)) c of
        None \<Rightarrow> c
      | Some l \<Rightarrow> l)"

definition py_lower :: "string \<Rightarrow> string" where
  "py_lower s = map lower_char s"

text \<open>
  \<^verbatim>\<open>str.upper\<close> of one character: U+00DF becomes \<^verbatim>\<open>SS\<close>, and the upper-case forms
  of U+00B5 and U+00FF lie beyond code point 255 (\<open>None\<close>).
\<close>

definition upper_char :: "char \<Rightarrow> string option" where
  "upper_char c =
     (if c \<in> set [CHR 0xB5, CHR 0xFF] then None
      else if c = CHR 0xDF then Some ''SS''
      else (case map_of (zip (ascii_lowercase @ latin1_lowercase)
                             (ascii_uppercase @ latin1_uppercase)) c of
              None \<Rightarrow> Some [c]
            | Some u \<Rightarrow> Some [u]))"

text \<open>
  \<^verbatim>\<open>str.upper\<close>: \<open>None\<close> when the result has a character beyond code point 255 and
  so is no text of this model.
\<close>

definition py_upper :: "string \<Rightarrow> string option" where
  "py_upper s = map_option concat (those (map upper_char s))"

text \<open>SQLite's \<^verbatim>\<open>lower()\<close>, which folds the ASCII letters only.\<close>

definition sql_lower :: "string \<Rightarrow> string" where
  "sql_lower s =
     map (\<lambda>c. case map_of (zip ascii_uppercase ascii_lowercase) c of None \<Rightarrow> c | Some l \<Rightarrow> l) s"

definition py_strip :: "string \<Rightarrow> string" where
  "py_strip s = rev (dropWhile isspace (rev (dropWhile isspace s)))"

definition digit_char :: "nat \<Rightarrow> char" where
  "digit_char d = digits ! d"

function show_nat :: "nat \<Rightarrow> string" where
  "show_nat n = (if n < 10 then [digit_char n] else show_nat (n div 10) @ [digit_char (n mod 10)])"
  by pat_completeness auto
termination
  by (relation "measure id") auto

declare show_nat.simps [simp del]

definition show_int :: "int \<Rightarrow> string" where
  "show_int i = (if i < 0 then CHR ''-'' # show_nat (nat (- i)) else show_nat (nat i))"

text \<open>
  The scalar values of a parsed JSON body. Arrays, nested objects and floats are
  outside the model.
\<close>

datatype jval = JNull | JBool bool | JNum int | JStr string

type_synonym jdict = "(string \<times> jval) list"

definition dict_get :: "jdict \<Rightarrow> string \<Rightarrow> jval" where
  "dict_get d k = (case map_of d k of None \<Rightarrow> JNull | Some v \<Rightarrow> v)"

definition dict_has :: "jdict \<Rightarrow> string \<Rightarrow> bool" where
  "dict_has d k = (map_of d k \<noteq> None)"

fun py_str :: "jval \<Rightarrow> string" where
  "py_str JNull = ''None''"
| "py_str (JBool b) = (if b then ''True'' else ''False'')"
| "py_str (JNum n) = show_int n"
| "py_str (JStr s) = s"

fun truthy :: "jval \<Rightarrow> bool" where
  "truthy JNull = False"
| "truthy (JBool b) = b"
| "truthy (JNum n) = (n \<noteq> 0)"
| "truthy (JStr s) = (s \<noteq> [])"

text \<open>\<^verbatim>\<open>sanitize_string(value, max_length)\<close> of utils/helpers.py.\<close>

definition sanitize_string :: "jval \<Rightarrow> nat option \<Rightarrow> string option" where
  "sanitize_string v max_length =
     (if v = JNull then None
      else
        let s = py_strip (py_str v) in
        (case max_length of
           None \<Rightarrow> Some s
         | Some m \<Rightarrow> if m \<noteq> 0 \<and> length s > m then Some (take m s) else Some s))"

section \<open>Models\<close>

type_synonym datetime = int  \<comment> \<open>microseconds on the UTC time line\<close>

definition VALID_CATEGORIES :: "string list" where
  "VALID_CATEGORIES =
     [''transcript'', ''registration'', ''fees_payment'', ''accommodation'', ''examination'',
      ''clearance'', ''scholarship'', ''library'', ''id_card'', ''course_registration'',
      ''result_issues'', ''certificate'', ''admission'', ''transfer'', ''medical'',
      ''security'', ''facilities'', ''academic_advising'', ''other'']"

definition VALID_STATUSES :: "string list" where
  "VALID_STATUSES = [''pending'', ''in_progress'', ''resolved'', ''closed'', ''rejected'']"

definition VALID_PRIORITIES :: "string list" where
  "VALID_PRIORITIES = [''low'', ''medium'', ''high'', ''urgent'']"

text \<open>A persisted row of the complaints table.\<close>

record complaint =
  c_id :: int
  c_ticket_number :: string
  c_user_id :: int
  c_assigned_to :: "int option"
  c_category :: string
  c_title :: string
  c_description :: string
  c_status :: string
  c_priority :: string
  c_attachments :: "string list"
  c_admin_notes :: "string option"
  c_created_at :: datetime
  c_updated_at :: datetime
  c_resolved_at :: "datetime option"

text \<open>
  The attributes of a \<^verbatim>\<open>Complaint\<close> instance before it is flushed: every keyword
  argument may be missing, which leaves the attribute \<^verbatim>\<open>None\<close>.
\<close>

record complaint_attrs =
  a_ticket_number :: "string option"
  a_user_id :: "int option"
  a_assigned_to :: "int option"
  a_category :: "string option"
  a_title :: "string option"
  a_description :: "string option"
  a_status :: "string option"
  a_priority :: "string option"
  a_attachments :: "string list option"
  a_admin_notes :: "string option"
  a_created_at :: "datetime option"
  a_resolved_at :: "datetime option"

record response =
  r_id :: int
  r_complaint_id :: int
  r_user_id :: int
  r_message :: string
  r_is_internal :: bool
  r_attachments :: "string list"
  r_created_at :: datetime

record user =
  u_id :: int
  u_email :: string
  u_full_name :: string
  u_role :: string
  u_is_active :: bool

record notification =
  n_id :: int
  n_user_id :: int
  n_complaint_id :: "int option"
  n_type :: string
  n_title :: string
  n_is_read :: bool
  n_created_at :: datetime

subsection \<open>Ticket numbers\<close>

definition ticket_alphabet :: string where
  "ticket_alphabet = ascii_uppercase @ digits"

text \<open>
  \<^verbatim>\<open>random.choices(population, k=k)\<close>: draw \<open>j\<close> of the generator is the index
  \<open>picks j\<close> into the population.
\<close>

definition random_choices :: "(nat \<Rightarrow> nat) \<Rightarrow> 'a list \<Rightarrow> nat \<Rightarrow> 'a list" where
  "random_choices picks population k = map (\<lambda>j. population ! picks j) [0..<k]"

definition generate_ticket_number :: "nat \<Rightarrow> (nat \<Rightarrow> nat) \<Rightarrow> string" where
  "generate_ticket_number year picks =
     ''TKT-'' @ show_nat year @ ''-'' @ random_choices picks ticket_alphabet 6"

subsection \<open>Constructor and status update\<close>

definition Complaint_init :: "complaint_attrs \<Rightarrow> nat \<Rightarrow> (nat \<Rightarrow> nat) \<Rightarrow> complaint_attrs" where
  "Complaint_init kwargs year picks =
     (let s1 = (if a_ticket_number kwargs = None \<or> a_ticket_number kwargs = Some []
                then kwargs\<lparr>a_ticket_number := Some (generate_ticket_number year picks)\<rparr>
                else kwargs);
          s2 = (if a_category s1 \<notin> Some ` set VALID_CATEGORIES
                then s1\<lparr>a_category := Some ''other''\<rparr> else s1);
          s3 = (if a_status s2 \<notin> Some ` set VALID_STATUSES
                then s2\<lparr>a_status := Some ''pending''\<rparr> else s2);
          s4 = (if a_priority s3 \<notin> Some ` set VALID_PRIORITIES
                then s3\<lparr>a_priority := Some ''medium''\<rparr> else s3)
      in if a_attachments s4 = None then s4\<lparr>a_attachments := Some []\<rparr> else s4)"

text \<open>
  \<^verbatim>\<open>Complaint.update_status\<close>: the flag returned and the complaint after the call;
  \<open>now\<close> is the reading of \<^verbatim>\<open>datetime.utcnow()\<close>.
\<close>

definition update_status :: "complaint \<Rightarrow> string \<Rightarrow> datetime \<Rightarrow> bool \<times> complaint" where
  "update_status self new_status now =
     (if new_status \<notin> set VALID_STATUSES then (False, self)
      else
        let s1 = self\<lparr>c_status := new_status\<rparr> in
        if new_status \<in> set [''resolved'', ''closed''] \<and> c_resolved_at s1 = None
        then (True, s1\<lparr>c_resolved_at := Some now\<rparr>)
        else (True, s1))"

section \<open>Pagination\<close>

record 'a pagination =
  p_items :: "'a list"
  p_page :: int
  p_per_page :: int
  p_total :: nat

text \<open>The largest integer SQLite stores; its smallest is \<open>- sqlite_max_int - 1\<close>.\<close>

definition sqlite_max_int :: int where
  "sqlite_max_int = 9223372036854775807"

text \<open>
  The query object's \<^verbatim>\<open>paginate(page, per_page, error_out=False)\<close>: a query is the list
  of rows it selects, in order. The page is fetched with \<^verbatim>\<open>LIMIT per_page OFFSET
  (page - 1) * per_page\<close>; \<open>None\<close> is the OverflowError raised when one of the two
  numbers is beyond SQLite's integers.
\<close>

definition paginate :: "'a list \<Rightarrow> int \<Rightarrow> int \<Rightarrow> 'a pagination option" where
  "paginate query page per_page =
     (let pg = (if page < 1 then 1 else page);
          pp = (if per_page < 1 then 20 else per_page)
      in if (pg - 1) * pp > sqlite_max_int \<or> pp > sqlite_max_int then None
         else Some \<lparr>p_items = take (nat pp) (drop (nat ((pg - 1) * pp)) query),
                    p_page = pg, p_per_page = pp, p_total = length query\<rparr>)"

definition paginate_query :: "'a list \<Rightarrow> int \<Rightarrow> int \<Rightarrow> int \<Rightarrow> 'a pagination option" where
  "paginate_query query page per_page max_per_page =
     (let page1 = max 1 page;
          per_page1 = min (max 1 per_page) max_per_page
      in paginate query page1 per_page1)"

record pagination_info =
  i_page :: int
  i_per_page :: int
  i_total_pages :: int
  i_total_items :: nat
  i_has_next :: bool
  i_has_prev :: bool
  i_next_page :: "int option"
  i_prev_page :: "int option"

definition pages :: "'a pagination \<Rightarrow> int" where
  "pages p = (if p_total p = 0 then 0
              else (int (p_total p) + p_per_page p - 1) div p_per_page p)"

definition get_pagination_info :: "'a pagination \<Rightarrow> pagination_info" where
  "get_pagination_info p =
     (let has_next = (p_page p < pages p); has_prev = (p_page p > 1)
      in \<lparr>i_page = p_page p, i_per_page = p_per_page p, i_total_pages = pages p,
          i_total_items = p_total p, i_has_next = has_next, i_has_prev = has_prev,
          i_next_page = (if has_next then Some (p_page p + 1) else None),
          i_prev_page = (if has_prev then Some (p_page p - 1) else None)\<rparr>)"

section \<open>The database and the HTTP envelope\<close>

record store =
  users :: "user list"
  complaints :: "complaint list"
  responses :: "response list"
  notifications :: "notification list"

text \<open>\<^verbatim>\<open>Model.query.get(id)\<close>: the row with that primary key, if any.\<close>

definition get_user :: "store \<Rightarrow> int \<Rightarrow> user option" where
  "get_user s uid = find (\<lambda>u. u_id u = uid) (users s)"

definition get_complaint :: "store \<Rightarrow> int \<Rightarrow> complaint option" where
  "get_complaint s cid = find (\<lambda>c. c_id c = cid) (complaints s)"

text \<open>The value of an autoincrement primary key for the next row of a table.\<close>

definition next_id :: "int list \<Rightarrow> int" where
  "next_id ids = fold max ids 0 + 1"

definition is_admin :: "user \<Rightarrow> bool" where
  "is_admin u = (u_role u \<in> set [''admin'', ''super_admin''])"

text \<open>
  What \<^verbatim>\<open>Complaint.to_dict\<close> returns. The display labels and the nested student and
  assigned-admin summaries are left out; a serialised response is the response row.
\<close>

record complaint_dict =
  d_id :: int
  d_ticket_number :: string
  d_user_id :: int
  d_category :: string
  d_title :: string
  d_description :: string
  d_status :: string
  d_priority :: string
  d_assigned_to :: "int option"
  d_attachments :: "string list"
  d_response_count :: nat
  d_created_at :: datetime
  d_updated_at :: datetime
  d_resolved_at :: "datetime option"
  d_responses :: "response list option"

text \<open>
  The \<^verbatim>\<open>responses\<close> relationship of a complaint: its responses ordered by
  \<^verbatim>\<open>created_at\<close> ascending.
\<close>

definition complaint_responses :: "store \<Rightarrow> complaint \<Rightarrow> response list" where
  "complaint_responses s c =
     sort_key r_created_at (filter (\<lambda>r. r_complaint_id r = c_id c) (responses s))"

definition to_dict :: "store \<Rightarrow> complaint \<Rightarrow> bool \<Rightarrow> complaint_dict" where
  "to_dict s c include_responses =
     \<lparr>d_id = c_id c, d_ticket_number = c_ticket_number c, d_user_id = c_user_id c,
      d_category = c_category c, d_title = c_title c, d_description = c_description c,
      d_status = c_status c, d_priority = c_priority c, d_assigned_to = c_assigned_to c,
      d_attachments = c_attachments c,
      d_response_count = length (complaint_responses s c),
      d_created_at = c_created_at c, d_updated_at = c_updated_at c,
      d_resolved_at = c_resolved_at c,
      d_responses = (if include_responses then Some (complaint_responses s c) else None)\<rparr>"

record chart_entry =
  e_date :: int
  e_count :: nat

datatype payload =
    NoData
  | ComplaintData complaint_dict
  | ComplaintList "complaint_dict list" pagination_info
  | ResponseData response
  | ChartData "chart_entry list"

text \<open>An HTTP reply: the status code and the \<^verbatim>\<open>data\<close> member of the envelope.\<close>

type_synonym reply = "nat \<times> payload"

definition create_error_response :: "nat \<Rightarrow> reply" where
  "create_error_response status_code = (status_code, NoData)"

definition create_success_response :: "payload \<Rightarrow> nat \<Rightarrow> reply" where
  "create_success_response d status_code = (status_code, d)"

text \<open>\<^verbatim>\<open>get_current_student\<close> of routes/student.py; \<open>ident\<close> is the JWT identity.\<close>

definition get_current_student :: "store \<Rightarrow> int \<Rightarrow> reply + user" where
  "get_current_student s ident =
     (case get_user s ident of
        None \<Rightarrow> Inl (create_error_response 404)
      | Some u \<Rightarrow>
          if \<not> u_is_active u then Inl (create_error_response 403)
          else if u_role u \<noteq> ''student'' then Inl (create_error_response 403)
          else Inr u)"

text \<open>\<^verbatim>\<open>get_current_admin\<close> of routes/admin.py and routes/dashboard.py.\<close>

definition get_current_admin :: "store \<Rightarrow> int \<Rightarrow> reply + user" where
  "get_current_admin s ident =
     (case get_user s ident of
        None \<Rightarrow> Inl (create_error_response 404)
      | Some u \<Rightarrow>
          if \<not> u_is_active u then Inl (create_error_response 403)
          else if \<not> is_admin u then Inl (create_error_response 403)
          else Inr u)"

section \<open>Listing queries\<close>

text \<open>
  The query string of a listing request. \<open>q_page\<close>, \<open>q_per_page\<close> and
  \<open>q_assigned_to\<close> are read with \<^verbatim>\<open>type=int\<close>: \<open>None\<close> stands for a missing or
  non-numeric argument. \<open>q_start_date\<close> and \<open>q_end_date\<close> hold the midnight that
  \<^verbatim>\<open>strptime(..., '%Y-%m-%d')\<close> returns, \<open>None\<close> for a missing, empty or malformed
  date (each of which leaves the query as it is).
\<close>

record list_args =
  q_status :: "string option"
  q_category :: "string option"
  q_priority :: "string option"
  q_assigned_to :: "int option"
  q_unassigned :: "string option"
  q_start_date :: "datetime option"
  q_end_date :: "datetime option"
  q_search :: "string option"
  q_sort_by :: "string option"
  q_sort_order :: "string option"
  q_page :: "int option"
  q_per_page :: "int option"

text \<open>The test \<^verbatim>\<open>value and value in VALID\<close> on a query argument.\<close>

definition given_in :: "string option \<Rightarrow> string list \<Rightarrow> bool" where
  "given_in v valid = (case v of None \<Rightarrow> False | Some x \<Rightarrow> x \<noteq> [] \<and> x \<in> set valid)"

text \<open>
  The filter idiom of the listings, \<^verbatim>\<open>if value and value in VALID: query =
  query.filter_by(column=value)\<close>: any other value leaves the query as it is.
\<close>

definition filter_by_enum ::
    "string option \<Rightarrow> string list \<Rightarrow> (complaint \<Rightarrow> string) \<Rightarrow> complaint list \<Rightarrow> complaint list" where
  "filter_by_enum arg valid column query =
     (if given_in arg valid then filter (\<lambda>c. Some (column c) = arg) query else query)"

text \<open>
  SQLite's \<^verbatim>\<open>LIKE\<close>: \<^verbatim>\<open>%\<close> matches any run of characters, \<^verbatim>\<open>_\<close> one character;
  \<^verbatim>\<open>ilike\<close> compares the operands under SQL's \<^verbatim>\<open>lower()\<close>.
\<close>

fun like :: "string \<Rightarrow> string \<Rightarrow> bool" where
  "like [] t = (t = [])"
| "like (p # ps) [] = (p = CHR ''%'' \<and> like ps [])"
| "like (p # ps) (c # cs) =
     (if p = CHR ''%'' then like ps (c # cs) \<or> like (p # ps) cs
      else (p = CHR ''_'' \<or> p = c) \<and> like ps cs)"

definition ilike :: "string \<Rightarrow> string \<Rightarrow> bool" where
  "ilike column pattern = like (sql_lower pattern) (sql_lower column)"

definition search_filter :: "string option \<Rightarrow> complaint list \<Rightarrow> complaint list" where
  "search_filter arg query =
     (let search = py_strip (case arg of None \<Rightarrow> [] | Some x \<Rightarrow> x) in
      if search \<noteq> [] then
        let search_term = ''%'' @ search @ ''%'' in
        filter (\<lambda>c. ilike (c_title c) search_term \<or> ilike (c_description c) search_term
                    \<or> ilike (c_ticket_number c) search_term) query
      else query)"

text \<open>
  \<^verbatim>\<open>order_by(column.asc())\<close> and \<^verbatim>\<open>order_by(column.desc())\<close>: text columns compare
  character by character; rows with equal keys keep one fixed order.
\<close>

definition order_by :: "string \<Rightarrow> bool \<Rightarrow> complaint list \<Rightarrow> complaint list" where
  "order_by column asc query =
     (let sorted =
        (if column = ''created_at'' then sort_key c_created_at query
         else if column = ''updated_at'' then sort_key c_updated_at query
         else if column = ''status'' then sort_key c_status query
         else if column = ''priority'' then sort_key c_priority query
         else sort_key c_category query)
      in if asc then sorted else rev sorted)"

definition sort_query :: "string list \<Rightarrow> list_args \<Rightarrow> complaint list \<Rightarrow> complaint list" where
  "sort_query valid_sort_fields args query =
     (let sort_by = (case q_sort_by args of None \<Rightarrow> ''created_at'' | Some x \<Rightarrow> x);
          sort_order = (case q_sort_order args of None \<Rightarrow> ''desc'' | Some x \<Rightarrow> x);
          sort_by1 = (if sort_by \<notin> set valid_sort_fields then ''created_at'' else sort_by)
      in order_by sort_by1 (sort_order = ''asc'') query)"

definition page_arg :: "list_args \<Rightarrow> int" where
  "page_arg args = (case q_page args of None \<Rightarrow> 1 | Some p \<Rightarrow> p)"

definition per_page_arg :: "list_args \<Rightarrow> int" where
  "per_page_arg args = (case q_per_page args of None \<Rightarrow> 10 | Some p \<Rightarrow> p)"

text \<open>\<^verbatim>\<open>get_my_complaints\<close> of routes/student.py.\<close>

definition get_my_complaints :: "store \<Rightarrow> int \<Rightarrow> list_args \<Rightarrow> reply" where
  "get_my_complaints s ident args =
     (case get_current_student s ident of
        Inl err \<Rightarrow> err
      | Inr u \<Rightarrow>
          let q0 = filter (\<lambda>c. c_user_id c = u_id u) (complaints s);
              q1 = filter_by_enum (q_status args) VALID_STATUSES c_status q0;
              q2 = filter_by_enum (q_category args) VALID_CATEGORIES c_category q1;
              q3 = filter_by_enum (q_priority args) VALID_PRIORITIES c_priority q2;
              q4 = search_filter (q_search args) q3;
              q5 = sort_query [''created_at'', ''updated_at'', ''status'', ''priority''] args q4
          in (case paginate_query q5 (page_arg args) (per_page_arg args) 100 of
                None \<Rightarrow> create_error_response 500
              | Some pagination \<Rightarrow>
                  create_success_response
                    (ComplaintList (map (\<lambda>c. to_dict s c False) (p_items pagination))
                       (get_pagination_info pagination)) 200))"

definition usec_per_day :: int where
  "usec_per_day = 86400000000"







section \<open>Writing to the database\<close>

definition VALID_TYPES :: "string list" where
  "VALID_TYPES =
     [''complaint_submitted'', ''complaint_assigned'', ''status_changed'', ''new_response'',
      ''complaint_resolved'', ''complaint_closed'', ''system_message'']"

text \<open>
  \<^verbatim>\<open>Notification.create_notification\<close> followed by the commit that stores the row.
  The free-text message of a notification is not modelled.
\<close>

definition create_notification ::
    "store \<Rightarrow> int \<Rightarrow> string \<Rightarrow> string \<Rightarrow> int option \<Rightarrow> datetime \<Rightarrow> store" where
  "create_notification s uid notification_type title cid now =
     s\<lparr>notifications := notifications s @
         [\<lparr>n_id = next_id (map n_id (notifications s)), n_user_id = uid, n_complaint_id = cid,
           n_type = (if notification_type \<notin> set VALID_TYPES then ''system_message''
                     else notification_type),
           n_title = title, n_is_read = False, n_created_at = now\<rparr>]\<rparr>"

text \<open>\<^verbatim>\<open>Response(...)\<close>, \<^verbatim>\<open>db.session.add\<close> and the flush that gives the row its key.\<close>

definition new_response :: "store \<Rightarrow> int \<Rightarrow> int \<Rightarrow> string \<Rightarrow> bool \<Rightarrow> datetime \<Rightarrow> response" where
  "new_response s cid uid msg internal now =
     \<lparr>r_id = next_id (map r_id (responses s)), r_complaint_id = cid, r_user_id = uid,
      r_message = msg, r_is_internal = internal, r_attachments = [], r_created_at = now\<rparr>"

definition add_response :: "store \<Rightarrow> response \<Rightarrow> store" where
  "add_response s r = s\<lparr>responses := responses s @ [r]\<rparr>"

text \<open>
  Flushing a changed complaint: \<^verbatim>\<open>onupdate\<close> stamps \<^verbatim>\<open>updated_at\<close> when a column
  really changed, and the row with that key is replaced.
\<close>

definition flushed :: "complaint \<Rightarrow> complaint \<Rightarrow> datetime \<Rightarrow> complaint" where
  "flushed old new now = (if new = old then old else new\<lparr>c_updated_at := now\<rparr>)"

definition save_complaint :: "store \<Rightarrow> complaint \<Rightarrow> store" where
  "save_complaint s row =
     s\<lparr>complaints := map (\<lambda>c. if c_id c = c_id row then row else c) (complaints s)\<rparr>"

text \<open>
  Inserting a new complaint: \<open>None\<close> is the IntegrityError of a \<^verbatim>\<open>nullable=False\<close>
  column left empty or of the \<^verbatim>\<open>unique=True\<close> constraint on \<^verbatim>\<open>ticket_number\<close>.
\<close>

definition insert_complaint :: "store \<Rightarrow> complaint_attrs \<Rightarrow> datetime \<Rightarrow> (store \<times> complaint) option" where
  "insert_complaint s a now =
     (case (a_ticket_number a, a_user_id a, a_category a, a_title a, a_description a) of
        (Some ticket, Some uid, Some cat, Some ttl, Some descr) \<Rightarrow>
          if ticket \<in> set (map c_ticket_number (complaints s)) then None
          else
            let row = \<lparr>c_id = next_id (map c_id (complaints s)), c_ticket_number = ticket,
                       c_user_id = uid, c_assigned_to = a_assigned_to a, c_category = cat,
                       c_title = ttl, c_description = descr,
                       c_status = (case a_status a of None \<Rightarrow> ''pending'' | Some x \<Rightarrow> x),
                       c_priority = (case a_priority a of None \<Rightarrow> ''medium'' | Some x \<Rightarrow> x),
                       c_attachments = (case a_attachments a of None \<Rightarrow> [] | Some x \<Rightarrow> x),
                       c_admin_notes = a_admin_notes a,
                       c_created_at = (case a_created_at a of None \<Rightarrow> now | Some t \<Rightarrow> t),
                       c_updated_at = now, c_resolved_at = a_resolved_at a\<rparr>
            in Some (s\<lparr>complaints := complaints s @ [row]\<rparr>, row)
      | _ \<Rightarrow> None)"

section \<open>Staff operations\<close>

text \<open>
  A request body is the parsed JSON object, \<open>None\<close> when \<^verbatim>\<open>get_json()\<close> returns
  \<^verbatim>\<open>None\<close>. Every write handler takes the store before the request and returns the
  reply with the store after it; a reply sent from the \<^verbatim>\<open>except\<close> branch follows a
  rollback, so the store is the one before the request.
\<close>

text \<open>\<^verbatim>\<open>update_complaint_status\<close> of routes/admin.py.\<close>

definition update_complaint_status ::
    "store \<Rightarrow> int \<Rightarrow> int \<Rightarrow> jdict option \<Rightarrow> datetime \<Rightarrow> reply \<times> store" where
  "update_complaint_status s ident complaint_id body now =
     (case get_current_admin s ident of
        Inl err \<Rightarrow> (err, s)
      | Inr admin \<Rightarrow>
         (case get_complaint s complaint_id of
            None \<Rightarrow> (create_error_response 404, s)
          | Some complaint \<Rightarrow>
             (case body of
                None \<Rightarrow> (create_error_response 400, s)
              | Some data \<Rightarrow>
                 if data = [] \<or> \<not> dict_has data ''status'' then (create_error_response 400, s)
                 else
                  (case dict_get data ''status'' of
                     JStr raw \<Rightarrow>
                      (case sanitize_string (JStr (py_lower raw)) (Some 20) of
                         None \<Rightarrow> (create_error_response 400, s)
                       | Some new_status \<Rightarrow>
                          if new_status \<notin> set VALID_STATUSES then (create_error_response 400, s)
                          else
                            let old_status = c_status complaint;
                                (ok, complaint1) = update_status complaint new_status now
                            in if \<not> ok then (create_error_response 400, s)
                               else
                                 let s1 = (case sanitize_string (dict_get data ''comment'') (Some 2000) of
                                             None \<Rightarrow> s
                                           | Some comment \<Rightarrow>
                                               if comment \<noteq> [] then
                                                 add_response s
                                                   (new_response s complaint_id (u_id admin)
                                                      (''Status changed from '' @ [CHR 0x27] @ old_status
                                                         @ [CHR 0x27] @ '' to '' @ [CHR 0x27] @ new_status
                                                         @ [CHR 0x27] @ ''. '' @ comment)
                                                      False now)
                                               else s);
                                     row = flushed complaint complaint1 now;
                                     s2 = save_complaint s1 row;
                                     s3 = create_notification s2 (c_user_id row) ''status_changed''
                                            ''Complaint Status Updated'' (Some (c_id row)) now
                                 in (create_success_response
                                       (ComplaintData (to_dict s3 row False)) 200, s3))
                   | _ \<Rightarrow> (create_error_response 500, s)))))"

text \<open>
  What a \<^verbatim>\<open>Boolean\<close>, \<^verbatim>\<open>nullable=False\<close>, \<^verbatim>\<open>default=False\<close> column stores for a
  value: \<^verbatim>\<open>None\<close> takes the default, \<^verbatim>\<open>0\<close> and \<^verbatim>\<open>1\<close> count as booleans, and any other
  value makes the flush raise (\<open>None\<close> here).
\<close>

fun as_bool :: "jval \<Rightarrow> bool option" where
  "as_bool JNull = Some False"
| "as_bool (JBool b) = Some b"
| "as_bool (JNum n) = (if n = 0 then Some False else if n = 1 then Some True else None)"
| "as_bool (JStr _) = None"

text \<open>\<^verbatim>\<open>add_admin_response\<close> of routes/admin.py.\<close>

definition add_admin_response ::
    "store \<Rightarrow> int \<Rightarrow> int \<Rightarrow> jdict option \<Rightarrow> datetime \<Rightarrow> reply \<times> store" where
  "add_admin_response s ident complaint_id body now =
     (case get_current_admin s ident of
        Inl err \<Rightarrow> (err, s)
      | Inr admin \<Rightarrow>
         (case get_complaint s complaint_id of
            None \<Rightarrow> (create_error_response 404, s)
          | Some complaint \<Rightarrow>
             (case body of
                None \<Rightarrow> (create_error_response 400, s)
              | Some data \<Rightarrow>
                 if data = [] then (create_error_response 400, s)
                 else
                  (case sanitize_string (dict_get data ''message'') (Some 5000) of
                     None \<Rightarrow> (create_error_response 400, s)
                   | Some message \<Rightarrow>
                      if message = [] \<or> length message < 2 then (create_error_response 400, s)
                      else
                        let is_internal = (if dict_has data ''is_internal''
                                           then dict_get data ''is_internal'' else JBool False)
                        in (case as_bool is_internal of
                              None \<Rightarrow> (create_error_response 500, s)
                            | Some internal \<Rightarrow>
                                let resp = new_response s complaint_id (u_id admin) message internal now;
                                    s1 = add_response s resp;
                                    complaint1 = (if c_status complaint = ''pending''
                                                  then complaint\<lparr>c_status := ''in_progress''\<rparr>
                                                  else complaint);
                                    row = flushed complaint complaint1 now;
                                    s2 = save_complaint s1 row;
                                    s3 = (if \<not> truthy is_internal
                                          then create_notification s2 (c_user_id row)
                                                 ''new_response'' ''New Response on Your Complaint''
                                                 (Some (c_id row)) now
                                          else s2)
                                in (create_success_response (ResponseData resp) 201, s3))))))"

section \<open>Student operations\<close>

text \<open>\<^verbatim>\<open>add_response_to_complaint\<close> of routes/student.py.\<close>

definition add_response_to_complaint ::
    "store \<Rightarrow> int \<Rightarrow> int \<Rightarrow> jdict option \<Rightarrow> datetime \<Rightarrow> reply \<times> store" where
  "add_response_to_complaint s ident complaint_id body now =
     (case get_current_student s ident of
        Inl err \<Rightarrow> (err, s)
      | Inr u \<Rightarrow>
         (case get_complaint s complaint_id of
            None \<Rightarrow> (create_error_response 404, s)
          | Some complaint \<Rightarrow>
              if c_user_id complaint \<noteq> u_id u then (create_error_response 403, s)
              else if c_status complaint \<in> set [''closed'', ''rejected'']
              then (create_error_response 400, s)
              else
               (case body of
                  None \<Rightarrow> (create_error_response 400, s)
                | Some data \<Rightarrow>
                   if data = [] then (create_error_response 400, s)
                   else
                    (case sanitize_string (dict_get data ''message'') (Some 5000) of
                       None \<Rightarrow> (create_error_response 400, s)
                     | Some message \<Rightarrow>
                        if message = [] \<or> length message < 5 then (create_error_response 400, s)
                        else
                          let resp = new_response s complaint_id (u_id u) message False now
                          in (create_success_response (ResponseData resp) 201,
                              add_response s resp)))))"

text \<open>\<^verbatim>\<open>get_complaint_details\<close> of routes/student.py.\<close>

definition get_complaint_details :: "store \<Rightarrow> int \<Rightarrow> int \<Rightarrow> reply" where
  "get_complaint_details s ident complaint_id =
     (case get_current_student s ident of
        Inl err \<Rightarrow> err
      | Inr u \<Rightarrow>
         (case get_complaint s complaint_id of
            None \<Rightarrow> create_error_response 404
          | Some complaint \<Rightarrow>
              if c_user_id complaint \<noteq> u_id u then create_error_response 403
              else
                let rs = sort_key r_created_at
                           (filter (\<lambda>r. r_complaint_id r = complaint_id \<and> r_is_internal r = False)
                              (responses s));
                    complaint_data = (to_dict s complaint False)\<lparr>d_responses := Some rs\<rparr>
                in create_success_response (ComplaintData complaint_data) 200))"

text \<open>
  \<^verbatim>\<open>track_complaint_by_ticket\<close> of routes/student.py. No stored ticket number equals
  an upper-cased argument that is no text of this model, so the lookup finds nothing.
\<close>

definition track_complaint_by_ticket :: "store \<Rightarrow> int \<Rightarrow> string \<Rightarrow> reply" where
  "track_complaint_by_ticket s ident ticket_number =
     (case get_current_student s ident of
        Inl err \<Rightarrow> err
      | Inr u \<Rightarrow>
         (case py_upper ticket_number of
            None \<Rightarrow> create_error_response 404
          | Some ticket \<Rightarrow>
             (case find (\<lambda>c. c_ticket_number c = ticket) (complaints s) of
                None \<Rightarrow> create_error_response 404
              | Some complaint \<Rightarrow>
                  if c_user_id complaint \<noteq> u_id u then create_error_response 403
                  else create_success_response (ComplaintData (to_dict s complaint True)) 200)))"

text \<open>\<^verbatim>\<open>validate_required_fields\<close> of utils/helpers.py, on a non-empty body.\<close>

definition missing_fields :: "jdict \<Rightarrow> string list \<Rightarrow> string list" where
  "missing_fields d required_fields =
     filter (\<lambda>field. \<not> dict_has d field \<or> dict_get d field = JNull \<or> dict_get d field = JStr [])
       required_fields"

text \<open>
  \<^verbatim>\<open>create_complaint\<close> of routes/student.py. \<open>year\<close> and \<open>picks\<close> are what the clock
  and the random generator give to \<^verbatim>\<open>generate_ticket_number\<close>.
\<close>

definition create_complaint ::
    "store \<Rightarrow> int \<Rightarrow> jdict option \<Rightarrow> datetime \<Rightarrow> nat \<Rightarrow> (nat \<Rightarrow> nat) \<Rightarrow> reply \<times> store" where
  "create_complaint s ident body now year picks =
     (case get_current_student s ident of
        Inl err \<Rightarrow> (err, s)
      | Inr u \<Rightarrow>
         (case body of
            None \<Rightarrow> (create_error_response 400, s)
          | Some data \<Rightarrow>
             if data = [] then (create_error_response 400, s)
             else if missing_fields data [''category'', ''title'', ''description''] \<noteq> []
             then (create_error_response 400, s)
             else
              (case dict_get data ''category'' of
                 JStr raw_category \<Rightarrow>
                  (case sanitize_string (JStr (py_lower raw_category)) (Some 50) of
                     None \<Rightarrow> (create_error_response 400, s)
                   | Some category \<Rightarrow>
                      if category \<notin> set VALID_CATEGORIES then (create_error_response 400, s)
                      else
                       (case sanitize_string (dict_get data ''title'') (Some 200) of
                          None \<Rightarrow> (create_error_response 400, s)
                        | Some title \<Rightarrow>
                           if title = [] \<or> length title < 5 then (create_error_response 400, s)
                           else
                            (case sanitize_string (dict_get data ''description'') (Some 5000) of
                               None \<Rightarrow> (create_error_response 400, s)
                             | Some description \<Rightarrow>
                                if description = [] \<or> length description < 20
                                then (create_error_response 400, s)
                                else
                                 (case (if dict_has data ''priority'' then dict_get data ''priority''
                                        else JStr ''medium'') of
                                    JStr raw_priority \<Rightarrow>
                                      let p = sanitize_string (JStr (py_lower raw_priority)) (Some 20);
                                          priority = (if p \<notin> Some ` set VALID_PRIORITIES
                                                      then Some ''medium'' else p);
                                          complaint = Complaint_init
                                            \<lparr>a_ticket_number = None, a_user_id = Some (u_id u),
                                             a_assigned_to = None, a_category = Some category,
                                             a_title = Some title, a_description = Some description,
                                             a_status = Some ''pending'', a_priority = priority,
                                             a_attachments = None, a_admin_notes = None,
                                             a_created_at = None, a_resolved_at = None\<rparr> year picks
                                      in (case insert_complaint s complaint now of
                                            None \<Rightarrow> (create_error_response 500, s)
                                          | Some (s1, row) \<Rightarrow>
                                              let s2 = create_notification s1 (u_id u)
                                                         ''complaint_submitted''
                                                         ''Complaint Submitted Successfully''
                                                         (Some (c_id row)) now
                                              in (create_success_response
                                                    (ComplaintData (to_dict s2 row False)) 201, s2))
                                  | _ \<Rightarrow> (create_error_response 500, s)))))
               | _ \<Rightarrow> (create_error_response 500, s))))"

section \<open>Trend chart\<close>

text \<open>
  A calendar date is the number of its day on the UTC time line; \<^verbatim>\<open>str(date)\<close> and
  SQL's \<^verbatim>\<open>date(...)\<close> name the same day by the same text, so the day number stands
  for both.
\<close>

definition date_of :: "datetime \<Rightarrow> int" where
  "date_of t = t div usec_per_day"

text \<open>The grouped query: one row per creation date at or after \<open>start_date\<close>, by date.\<close>

definition daily_data :: "complaint list \<Rightarrow> datetime \<Rightarrow> (int \<times> nat) list" where
  "daily_data cs start_date =
     (let rows = filter (\<lambda>c. c_created_at c \<ge> start_date) cs
      in map (\<lambda>d. (d, length (filter (\<lambda>c. date_of (c_created_at c) = d) rows)))
           (sort (remdups (map (\<lambda>c. date_of (c_created_at c)) rows))))"

text \<open>The \<^verbatim>\<open>while current_date <= end_date\<close> loop that builds the dense range.\<close>

function date_range :: "(int \<rightharpoonup> nat) \<Rightarrow> int \<Rightarrow> int \<Rightarrow> chart_entry list" where
  "date_range daily_counts current_date end_date =
     (if current_date \<le> end_date
      then \<lparr>e_date = current_date,
            e_count = (case daily_counts current_date of None \<Rightarrow> 0 | Some c \<Rightarrow> c)\<rparr>
           # date_range daily_counts (current_date + 1) end_date
      else [])"
  by pat_completeness auto
termination
  by (relation "measure (\<lambda>(m, c, e). nat (e + 1 - c))") auto

declare date_range.simps [simp del]

definition clamp_days :: "int option \<Rightarrow> int" where
  "clamp_days arg = (let days = (case arg of None \<Rightarrow> 30 | Some d \<Rightarrow> d) in min (max 7 days) 365)"

text \<open>
  \<^verbatim>\<open>get_trend_chart_data\<close> of routes/dashboard.py. \<open>now1\<close> and \<open>now2\<close> are the two
  readings of \<^verbatim>\<open>datetime.utcnow()\<close>, for the start and for the end of the range.
\<close>

definition get_trend_chart_data :: "store \<Rightarrow> int \<Rightarrow> int option \<Rightarrow> datetime \<Rightarrow> datetime \<Rightarrow> reply" where
  "get_trend_chart_data s ident days_arg now1 now2 =
     (case get_current_admin s ident of
        Inl err \<Rightarrow> err
      | Inr admin \<Rightarrow>
          let days = clamp_days days_arg;
              start_date = now1 - days * usec_per_day;
              daily_counts = map_of (daily_data (complaints s) start_date)
          in create_success_response
               (ChartData (date_range daily_counts (date_of start_date) (date_of now2))) 200)"

section \<open>Example data\<close>

text \<open>Keyword arguments with a category and a status outside the valid lists.\<close>

definition bad_kwargs :: complaint_attrs where
  "bad_kwargs = \<lparr>a_ticket_number = Some ''TKT-2024-ABC123'', a_user_id = Some 1,
     a_assigned_to = None, a_category = Some ''parking'', a_title = Some ''t'',
     a_description = Some ''d'', a_status = Some ''done'', a_priority = None,
     a_attachments = None, a_admin_notes = None, a_created_at = None, a_resolved_at = None\<rparr>"

definition ex_student :: user where
  "ex_student = \<lparr>u_id = 1, u_email = ''ada@uni.edu'', u_full_name = ''Ada'',
     u_role = ''student'', u_is_active = True\<rparr>"

definition ex_other_student :: user where
  "ex_other_student = \<lparr>u_id = 2, u_email = ''bo@uni.edu'', u_full_name = ''Bo'',
     u_role = ''student'', u_is_active = True\<rparr>"

definition ex_admin :: user where
  "ex_admin = \<lparr>u_id = 3, u_email = ''staff@uni.edu'', u_full_name = ''Staff'',
     u_role = ''admin'', u_is_active = True\<rparr>"

definition ex_complaint :: complaint where
  "ex_complaint = \<lparr>c_id = 1, c_ticket_number = ''TKT-2024-ABC123'', c_user_id = 1,
     c_assigned_to = None, c_category = ''library'', c_title = ''Lost library card'',
     c_description = ''My library card stopped working.'', c_status = ''pending'',
     c_priority = ''medium'', c_attachments = [], c_admin_notes = None,
     c_created_at = 100, c_updated_at = 100, c_resolved_at = None\<rparr>"

definition ex_closed :: complaint where
  "ex_closed = \<lparr>c_id = 2, c_ticket_number = ''TKT-2024-XYZ789'', c_user_id = 2,
     c_assigned_to = Some 3, c_category = ''fees_payment'', c_title = ''Double charge'',
     c_description = ''I was charged twice.'', c_status = ''closed'',
     c_priority = ''high'', c_attachments = [], c_admin_notes = None,
     c_created_at = 50, c_updated_at = 70, c_resolved_at = Some 70\<rparr>"

definition ex_note :: response where
  "ex_note = \<lparr>r_id = 1, r_complaint_id = 1, r_user_id = 3,
     r_message = ''Student has unpaid fines'', r_is_internal = True, r_attachments = [],
     r_created_at = 150\<rparr>"

text \<open>
  Two students, one member of staff, a pending complaint of the first student that
  carries one internal note, and a closed complaint of the second student.
\<close>

definition ex_store :: store where
  "ex_store = \<lparr>users = [ex_student, ex_other_student, ex_admin],
     complaints = [ex_complaint, ex_closed], responses = [ex_note], notifications = []\<rparr>"

text \<open>A run of status updates on one complaint, each with its own clock reading.\<close>

fun update_statuses :: "complaint \<Rightarrow> (string \<times> datetime) list \<Rightarrow> complaint" where
  "update_statuses c [] = c"
| "update_statuses c ((new_status, now) # rest) =
     update_statuses (snd (update_status c new_status now)) rest"

definition ex_internal_body :: jdict where
  "ex_internal_body = [(''message'', JStr ''Checking the fines ledger''), (''is_internal'', JBool True)]"

definition ex_public_body :: jdict where
  "ex_public_body = [(''message'', JStr ''We are looking into it'')]"


definition no_args :: list_args where
  "no_args = \<lparr>q_status = None, q_category = None, q_priority = None,
     q_assigned_to = None, q_unassigned = None, q_start_date = None, q_end_date = None,
     q_search = None, q_sort_by = None, q_sort_order = None, q_page = None, q_per_page = None\<rparr>"

text \<open>
  The pattern \<^verbatim>\<open>TKT-\d{4}-[A-Z0-9]{6}\<close> of the specification: \<^verbatim>\<open>TKT-\<close>, four
  digits, a hyphen, six characters that are letters \<^verbatim>\<open>A\<close> to \<^verbatim>\<open>Z\<close> or digits. Below
  code point 256 the class \<^verbatim>\<open>\d\<close> holds the digits \<^verbatim>\<open>0\<close> to \<^verbatim>\<open>9\<close> only.
\<close>

definition is_digit :: "char \<Rightarrow> bool" where
  "is_digit c = (48 \<le> (of_char c :: nat) \<and> (of_char c :: nat) \<le> 57)"

definition is_upper_or_digit :: "char \<Rightarrow> bool" where
  "is_upper_or_digit c = ((65 \<le> (of_char c :: nat) \<and> (of_char c :: nat) \<le> 90) \<or> is_digit c)"

definition matches_ticket_pattern :: "string \<Rightarrow> bool" where
  "matches_ticket_pattern t =
     (length t = 15 \<and> take 4 t = ''TKT-'' \<and> list_all is_digit (take 4 (drop 4 t))
      \<and> take 1 (drop 8 t) = ''-'' \<and> list_all is_upper_or_digit (drop 9 t))"

text \<open>Generator draws that spell \<^verbatim>\<open>ABC123\<close> and \<^verbatim>\<open>Q7Q7Q7\<close>.\<close>

definition abc123_picks :: "nat \<Rightarrow> nat" where
  "abc123_picks j = [0, 1, 2, 27, 28, 29] ! j"

definition q7_picks :: "nat \<Rightarrow> nat" where
  "q7_picks j = (if even j then 16 else 33)"

definition ex_new_body :: jdict where
  "ex_new_body = [(''category'', JStr ''Library''), (''title'', JStr ''Broken gate''),
     (''description'', JStr ''The gate scanner rejects my card.''), (''priority'', JStr ''HIGH'')]"

section \<open>Verified properties\<close>

subsection \<open>Pagination bounds\<close>

lemma paginate_query_Some:
  assumes "paginate_query q page per_page 100 = Some p"
  shows "p_per_page p = min (max 1 per_page) 100"
    and "p_page p = max 1 page"
    and "p_items p = take (nat (min (max 1 per_page) 100))
                       (drop (nat ((max 1 page - 1) * min (max 1 per_page) 100)) q)"
  using assms
  by (auto simp add: paginate_query_def paginate_def Let_def split: if_splits)

lemma paginate_query_succeeds:
  assumes "(max 1 page - 1) * min (max 1 per_page) 100 \<le> sqlite_max_int"
  shows "\<exists>p. paginate_query q page per_page 100 = Some p"
  using assms
  by (simp add: paginate_query_def paginate_def Let_def sqlite_max_int_def)

text \<open>
  C6. Whatever \<open>per_page\<close> is requested, the \<open>per_page\<close> that pagination uses lies in
  \<open>[1, 100]\<close>: \<^verbatim>\<open>paginate_query\<close> hands \<open>min (max 1 per_page) 100\<close> and
  \<open>max 1 page\<close> to the query, so 1000 gives 100, 0 gives 1 and a page below 1 becomes
  1. Every page it returns reports exactly these two values and holds at most 100
  items, and it returns one whenever the offset of the page fits SQLite's integers.
\<close>

theorem paginate_query_bounds:
  "paginate_query q page per_page 100 = paginate q (max 1 page) (min (max 1 per_page) 100)
   \<and> 1 \<le> min (max 1 per_page) 100 \<and> min (max 1 per_page) 100 \<le> 100
   \<and> paginate_query q page 1000 100 = paginate q (max 1 page) 100
   \<and> paginate_query q page 0 100 = paginate q (max 1 page) 1
   \<and> (paginate_query q page per_page 100 = Some p
        \<longrightarrow> 1 \<le> p_per_page p \<and> p_per_page p \<le> 100
          \<and> p_per_page p = min (max 1 per_page) 100
          \<and> p_page p = max 1 page \<and> 1 \<le> p_page p
          \<and> length (p_items p) \<le> 100)
   \<and> (paginate_query q page 1000 100 = Some p \<longrightarrow> p_per_page p = 100)
   \<and> (paginate_query q page 0 100 = Some p \<longrightarrow> p_per_page p = 1)
   \<and> ((max 1 page - 1) * min (max 1 per_page) 100 \<le> sqlite_max_int
        \<longrightarrow> (\<exists>r. paginate_query q page per_page 100 = Some r))"
proof -
  have a: "paginate_query q page pp 100 = paginate q (max 1 page) (min (max 1 pp) 100)" for pp
    by (simp add: paginate_query_def Let_def)
  have b: "1 \<le> p_per_page p \<and> p_per_page p \<le> 100
          \<and> p_per_page p = min (max 1 per_page) 100
          \<and> p_page p = max 1 page \<and> 1 \<le> p_page p
          \<and> length (p_items p) \<le> 100"
    if r: "paginate_query q page per_page 100 = Some p"
  proof -
    have "length (p_items p) \<le> nat (min (max 1 per_page) 100)"
      unfolding paginate_query_Some(3) [OF r] by simp
    then have "length (p_items p) \<le> 100" by linarith
    then show ?thesis
      unfolding paginate_query_Some(1,2) [OF r] by simp
  qed
  have c: "p_per_page p = 100" if "paginate_query q page 1000 100 = Some p"
    using paginate_query_Some(1) [OF that] by simp
  have d: "p_per_page p = 1" if "paginate_query q page 0 100 = Some p"
    using paginate_query_Some(1) [OF that] by simp
  have e: "\<exists>r. paginate_query q page per_page 100 = Some r"
    if "(max 1 page - 1) * min (max 1 per_page) 100 \<le> sqlite_max_int"
    using that by (rule paginate_query_succeeds)
  have f: "paginate_query q page 1000 100 = paginate q (max 1 page) 100"
    "paginate_query q page 0 100 = paginate q (max 1 page) 1"
    by (simp_all add: a)
  have g: "1 \<le> min (max 1 per_page) 100 \<and> min (max 1 per_page) 100 \<le> 100" by simp
  from a [of per_page] b c d e f g show ?thesis by blast
qed

theorem paginate_query_bounds_witness:
  "map_option p_per_page (paginate_query [1, 2, 3 :: nat] (- 4) 1000 100) = Some 100
   \<and> map_option p_page (paginate_query [1, 2, 3 :: nat] (- 4) 1000 100) = Some 1
   \<and> map_option p_items (paginate_query [1, 2, 3 :: nat] (- 4) 1000 100) = Some [1, 2, 3]
   \<and> map_option p_per_page (paginate_query [1, 2, 3 :: nat] 1 0 100) = Some 1"
proof -
  have h: "(max 1 (- 4) - 1) * min (max 1 1000) 100 \<le> sqlite_max_int"
    by (simp add: sqlite_max_int_def)
  from paginate_query_bounds [of "[1, 2, 3 :: nat]" "- 4" 1000] h
  obtain r where r: "paginate_query [1, 2, 3 :: nat] (- 4) 1000 100 = Some r" by blast
  from paginate_query_bounds [of "[1, 2, 3 :: nat]" "- 4" 1000 r] r
  have "p_per_page r = 100 \<and> p_page r = 1" by simp
  moreover have "map_option p_items (paginate_query [1, 2, 3 :: nat] (- 4) 1000 100) = Some [1, 2, 3]"
    "map_option p_per_page (paginate_query [1, 2, 3 :: nat] 1 0 100) = Some 1"
    by code_simp+
  ultimately show ?thesis using r by simp
qed

subsection \<open>Constructor normalisation\<close>

lemma other_valid: "''other'' \<in> set VALID_CATEGORIES"
  by (simp add: VALID_CATEGORIES_def)

lemma pending_valid: "''pending'' \<in> set VALID_STATUSES"
  by (simp add: VALID_STATUSES_def)

lemma medium_valid: "''medium'' \<in> set VALID_PRIORITIES"
  by (simp add: VALID_PRIORITIES_def)

lemma categories_19: "length VALID_CATEGORIES = 19 \<and> distinct VALID_CATEGORIES"
  by (simp add: VALID_CATEGORIES_def)

text \<open>
  C9. Right after construction a complaint has a category among the 19 valid ones, a
  status among the five valid ones, a priority among the four valid ones and an
  attachments list that is not \<^verbatim>\<open>None\<close>. A valid keyword argument is kept; a missing
  or invalid category, status or priority is replaced by \<^verbatim>\<open>other\<close>, \<^verbatim>\<open>pending\<close>
  and \<^verbatim>\<open>medium\<close>, and the constructor has no failing branch.
\<close>

theorem Complaint_init_normalizes:
  "(\<exists>x. a_category (Complaint_init kwargs year picks) = Some x \<and> x \<in> set VALID_CATEGORIES)
   \<and> (\<exists>x. a_status (Complaint_init kwargs year picks) = Some x \<and> x \<in> set VALID_STATUSES)
   \<and> (\<exists>x. a_priority (Complaint_init kwargs year picks) = Some x \<and> x \<in> set VALID_PRIORITIES)
   \<and> a_attachments (Complaint_init kwargs year picks) \<noteq> None
   \<and> a_category (Complaint_init kwargs year picks) =
       (if a_category kwargs \<in> Some ` set VALID_CATEGORIES then a_category kwargs else Some ''other'')
   \<and> a_status (Complaint_init kwargs year picks) =
       (if a_status kwargs \<in> Some ` set VALID_STATUSES then a_status kwargs else Some ''pending'')
   \<and> a_priority (Complaint_init kwargs year picks) =
       (if a_priority kwargs \<in> Some ` set VALID_PRIORITIES then a_priority kwargs else Some ''medium'')
   \<and> length VALID_CATEGORIES = 19 \<and> distinct VALID_CATEGORIES
   \<and> set VALID_STATUSES = {''pending'', ''in_progress'', ''resolved'', ''closed'', ''rejected''}
   \<and> set VALID_PRIORITIES = {''low'', ''medium'', ''high'', ''urgent''}"
proof -
  have vs: "set VALID_STATUSES = {''pending'', ''in_progress'', ''resolved'', ''closed'', ''rejected''}"
    by (simp add: VALID_STATUSES_def)
  have vp: "set VALID_PRIORITIES = {''low'', ''medium'', ''high'', ''urgent''}"
    by (simp add: VALID_PRIORITIES_def)
  have main: "(\<exists>x. a_category (Complaint_init kwargs year picks) = Some x \<and> x \<in> set VALID_CATEGORIES)
   \<and> (\<exists>x. a_status (Complaint_init kwargs year picks) = Some x \<and> x \<in> set VALID_STATUSES)
   \<and> (\<exists>x. a_priority (Complaint_init kwargs year picks) = Some x \<and> x \<in> set VALID_PRIORITIES)
   \<and> a_attachments (Complaint_init kwargs year picks) \<noteq> None
   \<and> a_category (Complaint_init kwargs year picks) =
       (if a_category kwargs \<in> Some ` set VALID_CATEGORIES then a_category kwargs else Some ''other'')
   \<and> a_status (Complaint_init kwargs year picks) =
       (if a_status kwargs \<in> Some ` set VALID_STATUSES then a_status kwargs else Some ''pending'')
   \<and> a_priority (Complaint_init kwargs year picks) =
       (if a_priority kwargs \<in> Some ` set VALID_PRIORITIES then a_priority kwargs else Some ''medium'')"
    using other_valid pending_valid medium_valid
    by (auto simp add: Complaint_init_def Let_def)
  show ?thesis using main categories_19 vs vp by blast
qed

theorem Complaint_init_normalizes_witness:
  "a_category (Complaint_init bad_kwargs 2024 (\<lambda>j. j)) = Some ''other''
   \<and> a_status (Complaint_init bad_kwargs 2024 (\<lambda>j. j)) = Some ''pending''
   \<and> a_priority (Complaint_init bad_kwargs 2024 (\<lambda>j. j)) = Some ''medium''
   \<and> a_attachments (Complaint_init bad_kwargs 2024 (\<lambda>j. j)) \<noteq> None"
proof -
  note t = Complaint_init_normalizes [of bad_kwargs 2024 "\<lambda>j. j"]
  have c: "a_category bad_kwargs \<notin> Some ` set VALID_CATEGORIES"
    by (simp add: bad_kwargs_def VALID_CATEGORIES_def image_iff)
  have s: "a_status bad_kwargs \<notin> Some ` set VALID_STATUSES"
    by (simp add: bad_kwargs_def VALID_STATUSES_def image_iff)
  have p: "a_priority bad_kwargs \<notin> Some ` set VALID_PRIORITIES"
    by (simp add: bad_kwargs_def image_iff)
  from t c s p show ?thesis by metis
qed

subsection \<open>Resolution timestamp\<close>

lemma update_status_keeps_resolved_at:
  "c_resolved_at c = Some t \<Longrightarrow> c_resolved_at (snd (update_status c new_status now)) = Some t"
  by (simp add: update_status_def Let_def)

lemma update_status_id: "c_id (snd (update_status c new_status now)) = c_id c"
  by (simp add: update_status_def Let_def)

lemma update_status_ok: "fst (update_status c new_status now) = (new_status \<in> set VALID_STATUSES)"
  by (simp add: update_status_def Let_def)

lemma update_statuses_keep_resolved_at:
  "c_resolved_at c = Some t \<Longrightarrow> c_resolved_at (update_statuses c ups) = Some t"
  by (induction c ups rule: update_statuses.induct) (simp_all add: update_status_keeps_resolved_at)

lemma flushed_id: "c_id new = c_id old \<Longrightarrow> c_id (flushed old new now) = c_id old"
  by (simp add: flushed_def)

lemma flushed_resolved_at: "c_resolved_at (flushed old new now) = c_resolved_at new"
  by (simp add: flushed_def)

lemma get_complaint_id: "get_complaint s cid = Some c \<Longrightarrow> c_id c = cid"
  by (auto simp add: get_complaint_def find_Some_iff)

lemma create_notification_complaints [simp]:
  "complaints (create_notification s uid ty ttl cid now) = complaints s"
  by (simp add: create_notification_def)

lemma add_response_complaints [simp]: "complaints (add_response s r) = complaints s"
  by (simp add: add_response_def)

lemma save_complaint_complaints:
  "complaints (save_complaint s row) = map (\<lambda>c. if c_id c = c_id row then row else c) (complaints s)"
  by (simp add: save_complaint_def)

lemma update_complaint_status_complaints:
  "complaints (snd (update_complaint_status s ident cid body now)) = complaints s
   \<or> (\<exists>complaint new_status. get_complaint s cid = Some complaint
        \<and> new_status \<in> set VALID_STATUSES
        \<and> complaints (snd (update_complaint_status s ident cid body now)) =
            map (\<lambda>c. if c_id c = cid
                      then flushed complaint (snd (update_status complaint new_status now)) now
                      else c) (complaints s))"
proof (cases "get_current_admin s ident")
  case (Inl err)
  then show ?thesis by (simp add: update_complaint_status_def)
next
  case (Inr admin)
  show ?thesis
  proof (cases "get_complaint s cid")
    case None
    with Inr show ?thesis by (simp add: update_complaint_status_def)
  next
    case (Some complaint)
    note c = Some
    show ?thesis
    proof (cases body)
      case None
      with Inr c show ?thesis by (simp add: update_complaint_status_def)
    next
      case (Some data)
      note b = Some
      show ?thesis
      proof (cases "data = [] \<or> \<not> dict_has data ''status''")
        case True
        with Inr c b show ?thesis by (simp add: update_complaint_status_def)
      next
        case False
        note d = False
        show ?thesis
        proof (cases "dict_get data ''status''")
          case (JStr raw)
          note r = JStr
          show ?thesis
          proof (cases "sanitize_string (JStr (py_lower raw)) (Some 20)")
            case None
            with Inr c b d r show ?thesis by (simp add: update_complaint_status_def)
          next
            case (Some new_status)
            note n = Some
            show ?thesis
            proof (cases "new_status \<in> set VALID_STATUSES")
              case False
              with Inr c b d r n show ?thesis by (simp add: update_complaint_status_def)
            next
              case True
              have id: "c_id (flushed complaint (snd (update_status complaint new_status now)) now) = cid"
                using get_complaint_id [OF c] by (simp add: flushed_id update_status_id)
              have "complaints (snd (update_complaint_status s ident cid body now)) =
                  map (\<lambda>c. if c_id c = cid
                      then flushed complaint (snd (update_status complaint new_status now)) now
                      else c) (complaints s)"
                using Inr c b d r n True id
                by (simp add: update_complaint_status_def Let_def case_prod_beta update_status_ok
                      save_complaint_complaints split: option.split)
              with c True show ?thesis by blast
            qed
          qed
        qed (use Inr c b d in \<open>simp_all add: update_complaint_status_def\<close>)
      qed
    qed
  qed
qed

lemma find_map_keeps_id:
  assumes "\<And>x. c_id (f x) = c_id x"
  shows "find (\<lambda>x. c_id x = cid) (map f xs) = map_option f (find (\<lambda>x. c_id x = cid) xs)"
  by (induction xs) (simp_all add: assms)

lemma valid_status_length: "x \<in> set VALID_STATUSES \<Longrightarrow> length x \<le> 11"
  by (auto simp add: VALID_STATUSES_def)

lemma dict_get_has: "dict_get d k = JStr raw \<Longrightarrow> dict_has d k \<and> d \<noteq> []"
  by (auto simp add: dict_get_def dict_has_def split: option.splits)

lemma flushed_status: "c_status (flushed old new now) = c_status new"
  by (simp add: flushed_def)

lemma sanitize_status_valid:
  assumes "py_strip (py_lower raw) \<in> set VALID_STATUSES"
  shows "sanitize_string (JStr (py_lower raw)) (Some 20) = Some (py_strip (py_lower raw))"
  using valid_status_length [OF assms] by (simp add: sanitize_string_def)

lemma update_complaint_status_success:
  assumes "get_current_admin s ident = Inr admin"
    and "get_complaint s cid = Some c"
    and "dict_get data ''status'' = JStr raw"
    and "py_strip (py_lower raw) \<in> set VALID_STATUSES"
  shows "fst (fst (update_complaint_status s ident cid (Some data) now)) = 200"
    and "complaints (snd (update_complaint_status s ident cid (Some data) now)) =
           map (\<lambda>x. if c_id x = cid
                     then flushed c (snd (update_status c (py_strip (py_lower raw)) now)) now
                     else x) (complaints s)"
proof -
  have id: "c_id (flushed c (snd (update_status c (py_strip (py_lower raw)) now)) now) = cid"
    using get_complaint_id [OF assms(2)] by (simp add: flushed_id update_status_id)
  show "fst (fst (update_complaint_status s ident cid (Some data) now)) = 200"
    using assms(1,2,3) dict_get_has [OF assms(3)] sanitize_status_valid [OF assms(4)] assms(4)
    by (simp add: update_complaint_status_def Let_def case_prod_beta update_status_ok
          create_success_response_def split: option.split)
  show "complaints (snd (update_complaint_status s ident cid (Some data) now)) =
           map (\<lambda>x. if c_id x = cid
                     then flushed c (snd (update_status c (py_strip (py_lower raw)) now)) now
                     else x) (complaints s)"
    using assms(1,2,3) dict_get_has [OF assms(3)] sanitize_status_valid [OF assms(4)] assms(4) id
    by (simp add: update_complaint_status_def Let_def case_prod_beta update_status_ok
          save_complaint_complaints split: option.split)
qed

lemma update_status_stamps:
  assumes "c_resolved_at c = None" and "ns \<in> {''resolved'', ''closed''}"
  shows "c_resolved_at (snd (update_status c ns now)) = Some now"
    and "c_status (snd (update_status c ns now)) = ns"
  using assms by (auto simp add: update_status_def Let_def VALID_STATUSES_def)

lemma endpoint_stamps:
  assumes "get_current_admin s ident = Inr admin"
    and "get_complaint s cid = Some c"
    and "c_resolved_at c = None"
    and "dict_get data ''status'' = JStr raw"
    and "py_strip (py_lower raw) \<in> {''resolved'', ''closed''}"
  shows "fst (fst (update_complaint_status s ident cid (Some data) now)) = 200
       \<and> (\<exists>c'. get_complaint (snd (update_complaint_status s ident cid (Some data) now)) cid = Some c'
              \<and> c_status c' = py_strip (py_lower raw) \<and> c_resolved_at c' = Some now)"
proof -
  let ?ns = "py_strip (py_lower raw)"
  let ?row = "flushed c (snd (update_status c ?ns now)) now"
  let ?f = "\<lambda>x. if c_id x = cid then ?row else x"
  have v: "?ns \<in> set VALID_STATUSES"
    using assms(5) by (auto simp add: VALID_STATUSES_def)
  note r = update_complaint_status_success [OF assms(1,2,4) v, of now]
  have rid: "c_id ?row = cid"
    using get_complaint_id [OF assms(2)] by (simp add: flushed_id update_status_id)
  have "get_complaint (snd (update_complaint_status s ident cid (Some data) now)) cid
          = map_option ?f (find (\<lambda>x. c_id x = cid) (complaints s))"
    unfolding get_complaint_def r(2)
    by (rule find_map_keeps_id) (simp add: rid)
  then have g: "get_complaint (snd (update_complaint_status s ident cid (Some data) now)) cid = Some ?row"
    using assms(2) get_complaint_id [OF assms(2)] by (simp add: get_complaint_def)
  have "c_status ?row = ?ns \<and> c_resolved_at ?row = Some now"
    using update_status_stamps [OF assms(3,5), of now]
    by (simp add: flushed_status flushed_resolved_at)
  with r(1) g show ?thesis by blast
qed

text \<open>
  C1. The first status update to \<^verbatim>\<open>resolved\<close> or \<^verbatim>\<open>closed\<close> made while
  \<^verbatim>\<open>resolved_at\<close> is empty stamps \<^verbatim>\<open>resolved_at\<close> with the clock reading. Once it is
  set, no status update changes or clears it: not one call of \<^verbatim>\<open>update_status\<close> with
  any value, not any run of such calls, and not any request to the status-update
  endpoint, whatever complaint it names. The endpoint itself stamps it: a staff
  request that sets a complaint with an empty \<^verbatim>\<open>resolved_at\<close> to \<^verbatim>\<open>resolved\<close> or
  \<^verbatim>\<open>closed\<close> is answered 200 and stores the clock reading.
\<close>

theorem resolved_at_set_once:
  "(c_resolved_at c = None \<and> new_status \<in> {''resolved'', ''closed''}
      \<longrightarrow> c_resolved_at (snd (update_status c new_status now)) = Some now)
   \<and> (c_resolved_at c = Some t
      \<longrightarrow> c_resolved_at (snd (update_status c new_status now)) = Some t)
   \<and> (c_resolved_at c = Some t \<longrightarrow> c_resolved_at (update_statuses c ups) = Some t)
   \<and> (get_complaint s cid = Some c \<and> c_resolved_at c = Some t
      \<longrightarrow> (\<exists>c'. get_complaint (snd (update_complaint_status s ident cid' body now)) cid = Some c'
                \<and> c_resolved_at c' = Some t))
   \<and> (get_current_admin s ident = Inr admin \<and> get_complaint s cid = Some c
        \<and> c_resolved_at c = None \<and> dict_get data ''status'' = JStr raw
        \<and> py_strip (py_lower raw) \<in> {''resolved'', ''closed''}
      \<longrightarrow> fst (fst (update_complaint_status s ident cid (Some data) now)) = 200
        \<and> (\<exists>c'. get_complaint (snd (update_complaint_status s ident cid (Some data) now)) cid = Some c'
               \<and> c_status c' = py_strip (py_lower raw) \<and> c_resolved_at c' = Some now))"
proof -
  have first: "c_resolved_at c = None \<and> new_status \<in> {''resolved'', ''closed''}
      \<longrightarrow> c_resolved_at (snd (update_status c new_status now)) = Some now"
    by (auto simp add: update_status_def Let_def VALID_STATUSES_def)
  have route: "\<exists>c'. get_complaint (snd (update_complaint_status s ident cid' body now)) cid = Some c'
                \<and> c_resolved_at c' = Some t"
    if g: "get_complaint s cid = Some c" and r: "c_resolved_at c = Some t"
  proof -
    from update_complaint_status_complaints [of s ident cid' body now]
    consider (same) "complaints (snd (update_complaint_status s ident cid' body now)) = complaints s"
      | (upd) complaint ns where "get_complaint s cid' = Some complaint"
          "complaints (snd (update_complaint_status s ident cid' body now)) =
            map (\<lambda>c. if c_id c = cid'
                      then flushed complaint (snd (update_status complaint ns now)) now
                      else c) (complaints s)"
      by blast
    then show ?thesis
    proof cases
      case same
      with g r show ?thesis by (simp add: get_complaint_def)
    next
      case upd
      let ?row = "flushed complaint (snd (update_status complaint ns now)) now"
      let ?f = "\<lambda>c. if c_id c = cid' then ?row else c"
      have rid: "c_id ?row = cid'"
        using get_complaint_id [OF upd(1)] by (simp add: flushed_id update_status_id)
      have "get_complaint (snd (update_complaint_status s ident cid' body now)) cid
              = map_option ?f (find (\<lambda>x. c_id x = cid) (complaints s))"
        unfolding get_complaint_def upd(2)
        by (rule find_map_keeps_id) (simp add: rid)
      then have g': "get_complaint (snd (update_complaint_status s ident cid' body now)) cid = Some (?f c)"
        using g by (simp add: get_complaint_def)
      show ?thesis
      proof (cases "c_id c = cid'")
        case True
        then have "cid = cid'" using get_complaint_id [OF g] by simp
        then have "complaint = c" using g upd(1) by simp
        then have "c_resolved_at ?row = Some t"
          using r by (simp add: flushed_resolved_at update_status_keeps_resolved_at)
        with g' True show ?thesis by simp
      next
        case False
        with g' r show ?thesis by simp
      qed
    qed
  qed
  show ?thesis
    using first update_status_keeps_resolved_at update_statuses_keep_resolved_at route
      endpoint_stamps [of s ident admin cid c data raw now]
    by blast
qed

theorem resolved_at_set_once_witness:
  "c_resolved_at (snd (update_status ex_complaint ''resolved'' 200)) = Some 200
   \<and> c_resolved_at (update_statuses (snd (update_status ex_complaint ''resolved'' 200))
        [(''in_progress'', 300), (''closed'', 400), (''pending'', 500)]) = Some 200
   \<and> (\<exists>c'. get_complaint (snd (update_complaint_status ex_store 3 2
               (Some [(''status'', JStr ''pending'')]) 600)) 2 = Some c'
          \<and> c_status c' = ''pending'' \<and> c_resolved_at c' = Some 70)
   \<and> (\<exists>c'. get_complaint (snd (update_complaint_status ex_store 3 1
               (Some [(''status'', JStr ''Resolved'')]) 700)) 1 = Some c'
          \<and> c_status c' = ''resolved'' \<and> c_resolved_at c' = Some 700)"
proof -
  have h1: "c_resolved_at ex_complaint = None \<and> ''resolved'' \<in> {''resolved'', ''closed''}"
    by (simp add: ex_complaint_def)
  have a: "c_resolved_at (snd (update_status ex_complaint ''resolved'' 200)) = Some 200"
    using resolved_at_set_once [of ex_complaint "''resolved''" 200] h1 by blast
  have b: "c_resolved_at (update_statuses (snd (update_status ex_complaint ''resolved'' 200))
        [(''in_progress'', 300), (''closed'', 400), (''pending'', 500)]) = Some 200"
    using resolved_at_set_once [of "snd (update_status ex_complaint ''resolved'' 200)" _ _ 200] a
    by blast
  have h2: "get_complaint ex_store 2 = Some ex_closed \<and> c_resolved_at ex_closed = Some 70"
    by code_simp
  have e: "map_option c_status (get_complaint (snd (update_complaint_status ex_store 3 2
               (Some [(''status'', JStr ''pending'')]) 600)) 2) = Some ''pending''"
    by code_simp
  have c: "\<exists>c'. get_complaint (snd (update_complaint_status ex_store 3 2
               (Some [(''status'', JStr ''pending'')]) 600)) 2 = Some c'
          \<and> c_resolved_at c' = Some 70"
    using resolved_at_set_once [of ex_closed _ _ 70 _ ex_store 2] h2 by blast
  from c e have c2: "\<exists>c'. get_complaint (snd (update_complaint_status ex_store 3 2
               (Some [(''status'', JStr ''pending'')]) 600)) 2 = Some c'
          \<and> c_status c' = ''pending'' \<and> c_resolved_at c' = Some 70"
    by auto
  have h3: "get_current_admin ex_store 3 = Inr ex_admin \<and> get_complaint ex_store 1 = Some ex_complaint
        \<and> c_resolved_at ex_complaint = None
        \<and> dict_get [(''status'', JStr ''Resolved'')] ''status'' = JStr ''Resolved''
        \<and> py_strip (py_lower ''Resolved'') = ''resolved''"
    by code_simp
  then have h4: "py_strip (py_lower ''Resolved'') \<in> {''resolved'', ''closed''}" by simp
  have d: "\<exists>c'. get_complaint (snd (update_complaint_status ex_store 3 1
               (Some [(''status'', JStr ''Resolved'')]) 700)) 1 = Some c'
          \<and> c_status c' = ''resolved'' \<and> c_resolved_at c' = Some 700"
    using resolved_at_set_once [where s = ex_store and ident = 3 and cid = 1 and c = ex_complaint
        and admin = ex_admin and data = "[(''status'', JStr ''Resolved'')]"
        and raw = "''Resolved''" and now = 700] h3 h4
    by auto
  from a b c2 d show ?thesis by blast
qed

subsection \<open>Authentication helpers\<close>

lemma get_current_student_error:
  "get_current_student s ident = Inl e \<Longrightarrow> snd e = NoData \<and> fst e \<in> {403, 404}"
  by (auto simp add: get_current_student_def create_error_response_def
        split: option.splits if_splits)

lemma get_current_admin_error:
  "get_current_admin s ident = Inl e \<Longrightarrow> snd e = NoData \<and> fst e \<in> {403, 404}"
  by (auto simp add: get_current_admin_def create_error_response_def
        split: option.splits if_splits)

lemma get_complaint_details_hides_internal:
  assumes "get_complaint_details s ident cid = (code, ComplaintData d)"
    and "d_responses d = Some rs"
  shows "\<forall>r \<in> set rs. \<not> r_is_internal r"
  using assms
  by (auto simp add: get_complaint_details_def create_error_response_def create_success_response_def
        Let_def split: sum.splits option.splits if_splits dest: get_current_student_error)

subsection \<open>Students cannot answer on closed or rejected complaints\<close>

text \<open>
  C10. When a student adds a response to a complaint they own whose status is
  \<^verbatim>\<open>closed\<close> or \<^verbatim>\<open>rejected\<close>, the reply is a 400 error and the store is the one
  before the request: no response row is created and nothing else changes,
  whatever the body holds.
\<close>

theorem closed_complaint_rejects_student_response:
  assumes "get_current_student s ident = Inr u"
    and "get_complaint s cid = Some c"
    and "c_user_id c = u_id u"
    and "c_status c \<in> {''closed'', ''rejected''}"
  shows "add_response_to_complaint s ident cid body now = ((400, NoData), s)"
  using assms by (auto simp add: add_response_to_complaint_def create_error_response_def)

theorem closed_complaint_rejects_student_response_witness:
  "add_response_to_complaint ex_store 2 2 (Some [(''message'', JStr ''Please reopen this'')]) 900
     = ((400, NoData), ex_store)
   \<and> responses ex_store = [ex_note]"
proof -
  have h1: "get_current_student ex_store 2 = Inr ex_other_student" by code_simp
  have h2: "get_complaint ex_store 2 = Some ex_closed" by code_simp
  have h3: "c_user_id ex_closed = u_id ex_other_student" by code_simp
  have h4: "c_status ex_closed \<in> {''closed'', ''rejected''}" by (simp add: ex_closed_def)
  have "responses ex_store = [ex_note]" by (simp add: ex_store_def)
  with closed_complaint_rejects_student_response [OF h1 h2 h3 h4] show ?thesis by simp
qed

subsection \<open>Internal notes in student views\<close>

text \<open>
  C3, at the failing input. The student of \<open>ex_store\<close> tracks their own complaint by
  its ticket number: the reply is 200 and its \<^verbatim>\<open>responses\<close> list holds the internal
  note, while the complaint-detail endpoint returns the same complaint without it.
\<close>

theorem track_exposes_internal_note:
  "r_is_internal ex_note
   \<and> fst (track_complaint_by_ticket ex_store 1 ''TKT-2024-ABC123'') = 200
   \<and> snd (track_complaint_by_ticket ex_store 1 ''TKT-2024-ABC123'')
       = ComplaintData ((to_dict ex_store ex_complaint False)\<lparr>d_responses := Some [ex_note]\<rparr>)
   \<and> snd (get_complaint_details ex_store 1 1)
       = ComplaintData ((to_dict ex_store ex_complaint False)\<lparr>d_responses := Some []\<rparr>)"
  by code_simp

subsection \<open>Status change on a staff response\<close>

text \<open>
  C4 as stated fails: an internal note posted on the pending complaint of
  \<open>ex_store\<close> is accepted (201), is stored as internal, and moves the complaint to
  \<^verbatim>\<open>in_progress\<close>.
\<close>

theorem internal_note_moves_pending_counterexample:
  "c_status ex_complaint = ''pending''
   \<and> fst (fst (add_admin_response ex_store 3 1 (Some ex_internal_body) 200)) = 201
   \<and> map r_is_internal (responses (snd (add_admin_response ex_store 3 1 (Some ex_internal_body) 200)))
       = [True, True]
   \<and> map_option c_status (get_complaint (snd (add_admin_response ex_store 3 1 (Some ex_internal_body) 200)) 1)
       = Some ''in_progress''"
  by code_simp


lemma add_admin_response_cases:
  "(fst (fst (add_admin_response s ident cid body now)) \<noteq> 201
      \<and> snd (add_admin_response s ident cid body now) = s)
   \<or> (fst (fst (add_admin_response s ident cid body now)) = 201
      \<and> (\<exists>complaint. get_complaint s cid = Some complaint
            \<and> complaints (snd (add_admin_response s ident cid body now)) =
                map (\<lambda>c. if c_id c = cid
                          then flushed complaint
                                 (if c_status complaint = ''pending''
                                  then complaint\<lparr>c_status := ''in_progress''\<rparr> else complaint) now
                          else c) (complaints s)))"
proof (cases "get_current_admin s ident")
  case (Inl err)
  then show ?thesis
    using get_current_admin_error [OF Inl] by (auto simp add: add_admin_response_def)
next
  case (Inr admin)
  show ?thesis
  proof (cases "get_complaint s cid")
    case None
    with Inr show ?thesis by (simp add: add_admin_response_def create_error_response_def)
  next
    case (Some complaint)
    note c = Some
    show ?thesis
    proof (cases body)
      case None
      with Inr c show ?thesis by (simp add: add_admin_response_def create_error_response_def)
    next
      case (Some data)
      note b = Some
      show ?thesis
      proof (cases "data = []")
        case True
        with Inr c b show ?thesis by (simp add: add_admin_response_def create_error_response_def)
      next
        case False
        note d = False
        show ?thesis
        proof (cases "sanitize_string (dict_get data ''message'') (Some 5000)")
          case None
          with Inr c b d show ?thesis by (simp add: add_admin_response_def create_error_response_def)
        next
          case (Some message)
          note m = Some
          show ?thesis
          proof (cases "message = [] \<or> length message < 2")
            case True
            with Inr c b d m show ?thesis
              by (simp add: add_admin_response_def create_error_response_def)
          next
            case False
            note l = False
            show ?thesis
            proof (cases "as_bool (if dict_has data ''is_internal''
                                   then dict_get data ''is_internal'' else JBool False)")
              case None
              with Inr c b d m l show ?thesis
                by (simp add: add_admin_response_def create_error_response_def Let_def)
            next
              case (Some internal)
              have id: "c_id (flushed complaint
                                 (if c_status complaint = ''pending''
                                  then complaint\<lparr>c_status := ''in_progress''\<rparr> else complaint) now) = cid"
                using get_complaint_id [OF c] by (simp add: flushed_def)
              show ?thesis
                using Inr c b d m l Some id
                by (simp add: add_admin_response_def create_success_response_def Let_def
                      save_complaint_complaints)
            qed
          qed
        qed
      qed
    qed
  qed
qed

text \<open>
  C4, as amended. A successful staff add-response (reply 201) on a pending complaint
  moves it to \<^verbatim>\<open>in_progress\<close> whether the response is internal or not; on a complaint
  in any other status it leaves the status as it was; and an add-response that does
  not succeed leaves the whole store unchanged.
\<close>

theorem add_admin_response_status:
  "(get_complaint s cid = Some c \<and> fst (fst (add_admin_response s ident cid body now)) = 201
      \<longrightarrow> (\<exists>c'. get_complaint (snd (add_admin_response s ident cid body now)) cid = Some c'
              \<and> c_status c' = (if c_status c = ''pending'' then ''in_progress'' else c_status c)))
   \<and> (fst (fst (add_admin_response s ident cid body now)) \<noteq> 201
      \<longrightarrow> snd (add_admin_response s ident cid body now) = s)"
proof -
  have ok: "\<exists>c'. get_complaint (snd (add_admin_response s ident cid body now)) cid = Some c'
              \<and> c_status c' = (if c_status c = ''pending'' then ''in_progress'' else c_status c)"
    if g: "get_complaint s cid = Some c"
      and r: "fst (fst (add_admin_response s ident cid body now)) = 201"
  proof -
    let ?row = "flushed c (if c_status c = ''pending''
                           then c\<lparr>c_status := ''in_progress''\<rparr> else c) now"
    let ?f = "\<lambda>x. if c_id x = cid then ?row else x"
    from add_admin_response_cases [of s ident cid body now] r g
    have cs: "complaints (snd (add_admin_response s ident cid body now)) = map ?f (complaints s)"
      by auto
    have rid: "c_id ?row = cid"
      using get_complaint_id [OF g] by (simp add: flushed_def)
    have "get_complaint (snd (add_admin_response s ident cid body now)) cid
            = map_option ?f (find (\<lambda>x. c_id x = cid) (complaints s))"
      unfolding get_complaint_def cs
      by (rule find_map_keeps_id) (simp add: rid)
    then have "get_complaint (snd (add_admin_response s ident cid body now)) cid = Some ?row"
      using g get_complaint_id [OF g] by (simp add: get_complaint_def)
    moreover have "c_status ?row = (if c_status c = ''pending'' then ''in_progress'' else c_status c)"
      by (simp add: flushed_status)
    ultimately show ?thesis by blast
  qed
  show ?thesis
    using ok add_admin_response_cases [of s ident cid body now] by blast
qed

theorem add_admin_response_status_witness:
  "(\<exists>c'. get_complaint (snd (add_admin_response ex_store 3 1 (Some ex_public_body) 200)) 1 = Some c'
         \<and> c_status c' = ''in_progress'')
   \<and> (\<exists>c'. get_complaint (snd (add_admin_response ex_store 3 2 (Some ex_public_body) 200)) 2 = Some c'
         \<and> c_status c' = ''closed'')
   \<and> snd (add_admin_response ex_store 3 1 (Some [(''message'', JStr ''x'')]) 200) = ex_store"
proof -
  have h1: "get_complaint ex_store 1 = Some ex_complaint
            \<and> fst (fst (add_admin_response ex_store 3 1 (Some ex_public_body) 200)) = 201"
    by code_simp
  have h2: "get_complaint ex_store 2 = Some ex_closed
            \<and> fst (fst (add_admin_response ex_store 3 2 (Some ex_public_body) 200)) = 201"
    by code_simp
  have h3: "fst (fst (add_admin_response ex_store 3 1 (Some [(''message'', JStr ''x'')]) 200)) \<noteq> 201"
    by code_simp
  have s1: "c_status ex_complaint = ''pending''" by (simp add: ex_complaint_def)
  have s2: "c_status ex_closed = ''closed''" by (simp add: ex_closed_def)
  have a: "\<exists>c'. get_complaint (snd (add_admin_response ex_store 3 1 (Some ex_public_body) 200)) 1 = Some c'
         \<and> c_status c' = ''in_progress''"
    using add_admin_response_status [of ex_store 1 ex_complaint 3 "Some ex_public_body" 200] h1 s1
    by simp
  have b: "\<exists>c'. get_complaint (snd (add_admin_response ex_store 3 2 (Some ex_public_body) 200)) 2 = Some c'
         \<and> c_status c' = ''closed''"
    using add_admin_response_status [of ex_store 2 ex_closed 3 "Some ex_public_body" 200] h2 s2
    by simp
  have c: "snd (add_admin_response ex_store 3 1 (Some [(''message'', JStr ''x'')]) 200) = ex_store"
    using add_admin_response_status [of ex_store 1 ex_complaint 3 "Some [(''message'', JStr ''x'')]" 200] h3
    by blast
  from a b c show ?thesis by blast
qed

subsection \<open>Ownership isolation of the student listing\<close>

lemma set_search_filter: "set (search_filter a q) \<subseteq> set q"
  by (auto simp add: search_filter_def Let_def)

lemma set_order_by: "set (order_by col asc q) = set q"
  by (simp add: order_by_def Let_def)

lemma set_sort_query: "set (sort_query v args q) = set q"
  by (simp add: sort_query_def Let_def set_order_by)

lemma set_paginate_items:
  "paginate_query q pg pp 100 = Some p \<Longrightarrow> set (p_items p) \<subseteq> set q"
  unfolding paginate_query_Some(3)
  by (meson set_take_subset set_drop_subset subset_trans)

lemma get_current_student_id: "get_current_student s ident = Inr u \<Longrightarrow> u_id u = ident"
  by (auto simp add: get_current_student_def get_user_def find_Some_iff
        split: option.splits if_splits)

lemma set_filter_by_enum: "set (filter_by_enum arg valid column q) \<subseteq> set q"
  by (simp add: filter_by_enum_def)

lemma my_complaints_reply:
  assumes "get_current_student s ident = Inr u"
  shows "get_my_complaints s ident args = (500, NoData)
       \<or> (\<exists>cs info. get_my_complaints s ident args
                       = (200, ComplaintList (map (\<lambda>c. to_dict s c False) cs) info)
            \<and> set cs \<subseteq> {c \<in> set (complaints s). c_user_id c = ident})"
    and "(max 1 (page_arg args) - 1) * min (max 1 (per_page_arg args)) 100 \<le> sqlite_max_int
       \<Longrightarrow> fst (get_my_complaints s ident args) = 200"
proof -
  let ?q0 = "filter (\<lambda>c. c_user_id c = u_id u) (complaints s)"
  let ?q1 = "filter_by_enum (q_status args) VALID_STATUSES c_status ?q0"
  let ?q2 = "filter_by_enum (q_category args) VALID_CATEGORIES c_category ?q1"
  let ?q3 = "filter_by_enum (q_priority args) VALID_PRIORITIES c_priority ?q2"
  let ?q5 = "sort_query [''created_at'', ''updated_at'', ''status'', ''priority''] args
               (search_filter (q_search args) ?q3)"
  let ?p = "paginate_query ?q5 (page_arg args) (per_page_arg args) 100"
  have r: "get_my_complaints s ident args =
          (case ?p of
             None \<Rightarrow> (500, NoData)
           | Some pagination \<Rightarrow>
               (200, ComplaintList (map (\<lambda>c. to_dict s c False) (p_items pagination))
                       (get_pagination_info pagination)))"
    using assms
    by (simp add: get_my_complaints_def create_success_response_def create_error_response_def
          Let_def split: option.split)
  have "set ?q3 \<subseteq> set ?q0"
    using set_filter_by_enum [of "q_status args" VALID_STATUSES c_status ?q0]
      set_filter_by_enum [of "q_category args" VALID_CATEGORIES c_category ?q1]
      set_filter_by_enum [of "q_priority args" VALID_PRIORITIES c_priority ?q2]
    by blast
  then have q: "set ?q5 \<subseteq> set ?q0"
    using set_search_filter [of "q_search args" ?q3] by (simp add: set_sort_query)
  show "get_my_complaints s ident args = (500, NoData)
       \<or> (\<exists>cs info. get_my_complaints s ident args
                       = (200, ComplaintList (map (\<lambda>c. to_dict s c False) cs) info)
            \<and> set cs \<subseteq> {c \<in> set (complaints s). c_user_id c = ident})"
  proof (cases ?p)
    case None
    with r show ?thesis by simp
  next
    case (Some pagination)
    from set_paginate_items [OF Some] q have "set (p_items pagination) \<subseteq> set ?q0"
      by blast
    then have "set (p_items pagination) \<subseteq> {c \<in> set (complaints s). c_user_id c = ident}"
      using get_current_student_id [OF assms] by auto
    with r Some show ?thesis by auto
  qed
  show "fst (get_my_complaints s ident args) = 200"
    if "(max 1 (page_arg args) - 1) * min (max 1 (per_page_arg args)) 100 \<le> sqlite_max_int"
    using paginate_query_succeeds [OF that, of ?q5] r by auto
qed

text \<open>
  C2. Every complaint in a page returned by the student listing belongs to the
  requesting student, whatever filters, search, sort and pagination arguments are
  given (none included); and an authenticated active student gets such a page
  whenever the offset of the requested page fits SQLite's integers.
\<close>

theorem my_complaints_owned:
  "(get_my_complaints s ident args = (code, ComplaintList items info)
      \<longrightarrow> (\<forall>d \<in> set items. d_user_id d = ident))
   \<and> (get_current_student s ident = Inr u
        \<and> (max 1 (page_arg args) - 1) * min (max 1 (per_page_arg args)) 100 \<le> sqlite_max_int
      \<longrightarrow> (\<exists>items info. get_my_complaints s ident args = (200, ComplaintList items info)))"
proof -
  have a: "\<forall>d \<in> set items. d_user_id d = ident"
    if r: "get_my_complaints s ident args = (code, ComplaintList items info)"
  proof (cases "get_current_student s ident")
    case (Inl e)
    then have "get_my_complaints s ident args = e" by (simp add: get_my_complaints_def)
    with r get_current_student_error [OF Inl] show ?thesis by simp
  next
    case (Inr u)
    from my_complaints_reply(1) [OF Inr, of args] r
    obtain cs where "items = map (\<lambda>c. to_dict s c False) cs"
      and "set cs \<subseteq> {c \<in> set (complaints s). c_user_id c = ident}" by auto
    then show ?thesis by (auto simp add: to_dict_def)
  qed
  have b: "\<exists>items info. get_my_complaints s ident args = (200, ComplaintList items info)"
    if u: "get_current_student s ident = Inr u"
      and o: "(max 1 (page_arg args) - 1) * min (max 1 (per_page_arg args)) 100 \<le> sqlite_max_int"
    using my_complaints_reply(1) [OF u, of args] my_complaints_reply(2) [OF u o] by auto
  from a b show ?thesis by blast
qed

theorem my_complaints_owned_witness:
  "get_my_complaints ex_store 1 no_args
     = (200, ComplaintList [to_dict ex_store ex_complaint False]
              (get_pagination_info
                 \<lparr>p_items = [ex_complaint], p_page = 1, p_per_page = 10, p_total = 1\<rparr>))
   \<and> map d_user_id [to_dict ex_store ex_complaint False] = [1]
   \<and> map c_user_id (complaints ex_store) = [1, 2]"
proof -
  have e: "get_my_complaints ex_store 1 no_args
     = (200, ComplaintList [to_dict ex_store ex_complaint False]
              (get_pagination_info
                 \<lparr>p_items = [ex_complaint], p_page = 1, p_per_page = 10, p_total = 1\<rparr>))"
    by code_simp
  have o: "map c_user_id (complaints ex_store) = [1, 2]"
    by code_simp
  from my_complaints_owned [of ex_store 1 no_args 200 "[to_dict ex_store ex_complaint False]"] e
  have "\<forall>d \<in> set [to_dict ex_store ex_complaint False]. d_user_id d = 1"
    by blast
  with e o show ?thesis by simp
qed

subsection \<open>Validation of filters and of status updates\<close>












subsection \<open>Trend chart density\<close>

lemma date_of_shift: "date_of (t - n * usec_per_day) = date_of t - n"
  by (simp add: date_of_def usec_per_day_def)

lemma date_range_dates: "map e_date (date_range m a b) = [a..b]"
proof (induction m a b rule: date_range.induct)
  case (1 m a b)
  show ?case
  proof (cases "a \<le> b")
    case True
    with 1 show ?thesis
      by (subst date_range.simps) (simp add: upto_rec1)
  next
    case False
    then show ?thesis
      by (subst date_range.simps) simp
  qed
qed

lemma date_range_counts:
  "e \<in> set (date_range m a b) \<Longrightarrow> e_count e = (case m (e_date e) of None \<Rightarrow> 0 | Some c \<Rightarrow> c)"
proof (induction m a b rule: date_range.induct)
  case (1 m a b)
  show ?case
  proof (cases "a \<le> b")
    case True
    from 1(2) have "e \<in> set (\<lparr>e_date = a, e_count = (case m a of None \<Rightarrow> 0 | Some c \<Rightarrow> c)\<rparr>
                      # date_range m (a + 1) b)"
      using True by (subst (asm) date_range.simps) simp
    with 1(1) [OF True] show ?thesis by auto
  next
    case False
    with 1(2) show ?thesis
      by (subst (asm) date_range.simps) simp
  qed
qed

lemma map_of_tabulate:
  "map_of (map (\<lambda>d. (d, f d)) ds) d = (if d \<in> set ds then Some (f d) else None)"
  by (induction ds) auto

lemma daily_counts_lookup:
  "(case map_of (daily_data cs st) d of None \<Rightarrow> 0 | Some c \<Rightarrow> c)
     = length (filter (\<lambda>c. c_created_at c \<ge> st \<and> date_of (c_created_at c) = d) cs)"
proof -
  let ?rows = "filter (\<lambda>c. c_created_at c \<ge> st) cs"
  have f: "filter (\<lambda>c. date_of (c_created_at c) = d) ?rows
         = filter (\<lambda>c. c_created_at c \<ge> st \<and> date_of (c_created_at c) = d) cs"
    by (simp add: conj_commute)
  show ?thesis
  proof (cases "d \<in> set (map (\<lambda>c. date_of (c_created_at c)) ?rows)")
    case True
    then show ?thesis
      unfolding daily_data_def Let_def map_of_tabulate using f by simp
  next
    case False
    then have "filter (\<lambda>c. date_of (c_created_at c) = d) ?rows = []"
      by (auto simp add: filter_empty_conv)
    with False show ?thesis
      unfolding daily_data_def Let_def map_of_tabulate using f by simp
  qed
qed

lemma clamp_days_range: "7 \<le> clamp_days arg \<and> clamp_days arg \<le> 365 \<and> clamp_days None = 30
    \<and> clamp_days (Some 7) = 7"
  by (simp add: clamp_days_def Let_def)

lemma trend_reply:
  assumes "get_current_admin s ident = Inr admin"
  shows "get_trend_chart_data s ident days_arg now1 now2 =
      (200, ChartData (date_range (map_of (daily_data (complaints s) (now1 - clamp_days days_arg * usec_per_day)))
                         (date_of now1 - clamp_days days_arg) (date_of now2)))"
  using assms
  by (simp add: get_trend_chart_data_def Let_def create_success_response_def date_of_shift)

text \<open>
  C5, as amended. For a member of staff, with both clock readings on the same UTC
  day, the trend chart has \<open>days + 1\<close> entries, where \<open>days\<close> is the argument
  clamped into \<open>[7, 365]\<close> (30 when missing): 8 entries for \<^verbatim>\<open>days=7\<close>. Their dates
  are the consecutive calendar days from today minus \<open>days\<close> to today, none missing.
  Each entry counts the complaints created on its day at or after the start of the
  window, which for every day after the first is every complaint created that day,
  and 0 when there is none.
\<close>

theorem trend_chart_dense:
  assumes "get_current_admin s ident = Inr admin"
    and "date_of now2 = date_of now1"
  shows "\<exists>entries.
      get_trend_chart_data s ident days_arg now1 now2 = (200, ChartData entries)
      \<and> length entries = nat (clamp_days days_arg) + 1
      \<and> map e_date entries = [date_of now1 - clamp_days days_arg .. date_of now1]
      \<and> (\<forall>e \<in> set entries.
            e_count e = length (filter (\<lambda>c. c_created_at c \<ge> now1 - clamp_days days_arg * usec_per_day
                                          \<and> date_of (c_created_at c) = e_date e) (complaints s)))
      \<and> (\<forall>e \<in> set entries. e_date e > date_of now1 - clamp_days days_arg
            \<longrightarrow> e_count e = length (filter (\<lambda>c. date_of (c_created_at c) = e_date e) (complaints s)))
      \<and> 7 \<le> clamp_days days_arg \<and> clamp_days days_arg \<le> 365
      \<and> clamp_days None = 30 \<and> clamp_days (Some 7) = 7"
proof -
  let ?n = "clamp_days days_arg"
  let ?st = "now1 - ?n * usec_per_day"
  let ?es = "date_range (map_of (daily_data (complaints s) ?st)) (date_of now1 - ?n) (date_of now2)"
  have r: "get_trend_chart_data s ident days_arg now1 now2 = (200, ChartData ?es)"
    by (rule trend_reply [OF assms(1)])
  have d: "map e_date ?es = [date_of now1 - ?n .. date_of now1]"
    by (simp add: date_range_dates assms(2))
  have "length (map e_date ?es) = nat ?n + 1"
    unfolding d using clamp_days_range [of days_arg] by (simp add: nat_add_distrib)
  then have l: "length ?es = nat ?n + 1" by simp
  have c: "e_count e = length (filter (\<lambda>c. c_created_at c \<ge> ?st
                                          \<and> date_of (c_created_at c) = e_date e) (complaints s))"
    if "e \<in> set ?es" for e
    using date_range_counts [OF that] by (simp add: daily_counts_lookup)
  have c2: "e_count e = length (filter (\<lambda>c. date_of (c_created_at c) = e_date e) (complaints s))"
    if e: "e \<in> set ?es" and g: "e_date e > date_of now1 - ?n" for e
  proof -
    have "c_created_at x \<ge> ?st" if "date_of (c_created_at x) = e_date e" for x
    proof -
      have "date_of ?st < date_of (c_created_at x)"
        using g that by (simp add: date_of_shift)
      then show ?thesis
        unfolding date_of_def usec_per_day_def
        by (smt (verit) zdiv_mono1)
    qed
    then have "filter (\<lambda>c. c_created_at c \<ge> ?st \<and> date_of (c_created_at c) = e_date e) (complaints s)
             = filter (\<lambda>c. date_of (c_created_at c) = e_date e) (complaints s)"
      by (intro filter_cong) auto
    with c [OF e] show ?thesis by simp
  qed
  from r d l c c2 clamp_days_range [of days_arg] show ?thesis by blast
qed

text \<open>
  C5 as stated fails: with \<^verbatim>\<open>days=7\<close> the chart of \<open>ex_store\<close> has 8 entries, and
  the first one counts 1 complaint on a day on which 2 were created.
\<close>

theorem trend_seven_days_counterexample:
  "snd (get_trend_chart_data ex_store 3 (Some 7) (7 * usec_per_day + 75) (7 * usec_per_day + 75))
     = ChartData [\<lparr>e_date = 0, e_count = 1\<rparr>, \<lparr>e_date = 1, e_count = 0\<rparr>,
                  \<lparr>e_date = 2, e_count = 0\<rparr>, \<lparr>e_date = 3, e_count = 0\<rparr>,
                  \<lparr>e_date = 4, e_count = 0\<rparr>, \<lparr>e_date = 5, e_count = 0\<rparr>,
                  \<lparr>e_date = 6, e_count = 0\<rparr>, \<lparr>e_date = 7, e_count = 0\<rparr>]
   \<and> map (\<lambda>c. date_of (c_created_at c)) (complaints ex_store) = [0, 0]"
  by code_simp

theorem trend_chart_dense_witness:
  "\<exists>entries.
      get_trend_chart_data ex_store 3 (Some 3) (9 * usec_per_day + 75) (9 * usec_per_day + 80)
        = (200, ChartData entries)
      \<and> length entries = 8
      \<and> map e_date entries = [2, 3, 4, 5, 6, 7, 8, 9]"
proof -
  have h1: "get_current_admin ex_store 3 = Inr ex_admin" by code_simp
  have h2: "date_of (9 * usec_per_day + 80) = date_of (9 * usec_per_day + 75)" by code_simp
  have n: "clamp_days (Some 3) = 7" by code_simp
  have d: "date_of (9 * usec_per_day + 75) = 9" by code_simp
  have u: "[2 .. 9 :: int] = [2, 3, 4, 5, 6, 7, 8, 9]" by code_simp
  from trend_chart_dense [OF h1 h2, of "Some 3"] show ?thesis
    unfolding n d by (auto simp add: u)
qed

subsection \<open>Ticket numbers\<close>

lemma digit_char_is_digit: "d < 10 \<Longrightarrow> is_digit (digit_char d)"
proof -
  assume "d < 10"
  then have "d \<in> {0, 1, 2, 3, 4, 5, 6, 7, 8, 9}" by auto
  then show ?thesis
    by (auto simp add: digit_char_def digits_def is_digit_def)
qed

lemma show_nat_small: "n < 10 \<Longrightarrow> show_nat n = [digit_char n]"
  by (subst show_nat.simps) simp

lemma show_nat_step: "10 \<le> n \<Longrightarrow> show_nat n = show_nat (n div 10) @ [digit_char (n mod 10)]"
  by (subst show_nat.simps) simp

lemma show_nat_four:
  assumes "1000 \<le> y" and "y \<le> 9999"
  shows "show_nat y = [digit_char (y div 1000), digit_char (y div 100 mod 10),
                       digit_char (y div 10 mod 10), digit_char (y mod 10)]"
proof -
  have e: "y div 10 div 10 = y div 100" "y div 100 div 10 = y div 1000"
    by (simp_all add: div_mult2_eq [symmetric])
  have a: "show_nat y = show_nat (y div 10) @ [digit_char (y mod 10)]"
    using assms by (intro show_nat_step) simp
  have b: "show_nat (y div 10) = show_nat (y div 100) @ [digit_char (y div 10 mod 10)]"
    using assms show_nat_step [of "y div 10"] by (simp add: e)
  have c: "show_nat (y div 100) = show_nat (y div 1000) @ [digit_char (y div 100 mod 10)]"
    using assms show_nat_step [of "y div 100"] by (simp add: e)
  have d: "show_nat (y div 1000) = [digit_char (y div 1000)]"
    using assms by (intro show_nat_small) simp
  show ?thesis
    by (simp add: a b c d)
qed

lemma alphabet_chars: "length ticket_alphabet = 36 \<and> list_all is_upper_or_digit ticket_alphabet"
  by (simp add: ticket_alphabet_def ascii_uppercase_def digits_def is_upper_or_digit_def is_digit_def)

lemma random_part_format:
  assumes "\<forall>j<6. picks j < 36"
  shows "length (random_choices picks ticket_alphabet 6) = 6
       \<and> list_all is_upper_or_digit (random_choices picks ticket_alphabet 6)"
proof -
  have "is_upper_or_digit (ticket_alphabet ! picks j)" if "j < 6" for j
  proof -
    have "picks j < length ticket_alphabet" using assms that alphabet_chars by simp
    then have "ticket_alphabet ! picks j \<in> set ticket_alphabet" by (rule nth_mem)
    then show ?thesis using alphabet_chars by (simp add: list_all_iff)
  qed
  then show ?thesis
    by (simp add: random_choices_def list_all_iff)
qed

lemma generate_ticket_number_format:
  assumes "1000 \<le> year" and "year \<le> 9999" and "\<forall>j<6. picks j < 36"
  shows "matches_ticket_pattern (generate_ticket_number year picks)"
proof -
  have d: "is_digit (digit_char (year div 1000))" "is_digit (digit_char (year div 100 mod 10))"
    "is_digit (digit_char (year div 10 mod 10))" "is_digit (digit_char (year mod 10))"
    using assms(1,2) by (simp_all add: digit_char_is_digit div_less_iff_less_mult)
  from random_part_format [OF assms(3)] d show ?thesis
    by (simp add: matches_ticket_pattern_def generate_ticket_number_def
          show_nat_four [OF assms(1,2)])
qed

lemma Complaint_init_ticket:
  "a_ticket_number kwargs = None
     \<Longrightarrow> a_ticket_number (Complaint_init kwargs year picks) = Some (generate_ticket_number year picks)"
  by (simp add: Complaint_init_def Let_def)

lemma insert_complaint_Some:
  assumes "insert_complaint s a now = Some (s1, row)"
  shows "complaints s1 = complaints s @ [row] \<and> a_ticket_number a = Some (c_ticket_number row)
       \<and> c_ticket_number row \<notin> set (map c_ticket_number (complaints s))"
  using assms
  by (auto simp add: insert_complaint_def Let_def split: option.splits if_splits)


lemma create_complaint_complaints:
  "snd (create_complaint s ident body now year picks) = s
   \<or> (\<exists>row. complaints (snd (create_complaint s ident body now year picks)) = complaints s @ [row]
          \<and> c_ticket_number row = generate_ticket_number year picks
          \<and> c_ticket_number row \<notin> set (map c_ticket_number (complaints s)))"
proof -
  have ins: "complaints s1 = complaints s @ [row]
       \<and> c_ticket_number row = generate_ticket_number year picks
       \<and> c_ticket_number row \<notin> set (map c_ticket_number (complaints s))"
    if "insert_complaint s (Complaint_init kw year picks) now = Some (s1, row)"
      and "a_ticket_number kw = None" for kw s1 row
    using insert_complaint_Some [OF that(1)] Complaint_init_ticket [OF that(2), of year picks]
    by simp
  show ?thesis
    unfolding create_complaint_def Let_def
    by (auto split: sum.splits option.splits jval.splits dest!: ins)
qed

text \<open>
  C8. With the clock in a four-digit year and every generator draw an index into the
  36-character alphabet, a generated ticket number matches
  \<^verbatim>\<open>TKT-\d{4}-[A-Z0-9]{6}\<close>, and so does the ticket number of a complaint
  constructed without one. Creating a complaint keeps ticket numbers unique across
  all stored complaints (a colliding number makes the insert fail and nothing is
  stored), and every complaint it adds carries a number of that form.
\<close>

theorem ticket_number_format_unique:
  assumes "1000 \<le> year" and "year \<le> 9999" and "\<forall>j<6. picks j < 36"
    and "distinct (map c_ticket_number (complaints s))"
  shows "matches_ticket_pattern (generate_ticket_number year picks)
     \<and> (a_ticket_number kwargs = None
          \<longrightarrow> (\<exists>t. a_ticket_number (Complaint_init kwargs year picks) = Some t
                   \<and> matches_ticket_pattern t))
     \<and> distinct (map c_ticket_number
          (complaints (snd (create_complaint s ident body now year picks))))
     \<and> (\<forall>c \<in> set (complaints (snd (create_complaint s ident body now year picks))).
           c \<in> set (complaints s) \<or> matches_ticket_pattern (c_ticket_number c))"
proof -
  note f = generate_ticket_number_format [OF assms(1-3)]
  have i: "\<exists>t. a_ticket_number (Complaint_init kwargs year picks) = Some t \<and> matches_ticket_pattern t"
    if "a_ticket_number kwargs = None"
    using Complaint_init_ticket [OF that, of year picks] f by simp
  from create_complaint_complaints [of s ident body now year picks]
  have "distinct (map c_ticket_number
          (complaints (snd (create_complaint s ident body now year picks))))
     \<and> (\<forall>c \<in> set (complaints (snd (create_complaint s ident body now year picks))).
           c \<in> set (complaints s) \<or> matches_ticket_pattern (c_ticket_number c))"
  proof
    assume "snd (create_complaint s ident body now year picks) = s"
    with assms(4) show ?thesis by simp
  next
    assume "\<exists>row. complaints (snd (create_complaint s ident body now year picks)) = complaints s @ [row]
          \<and> c_ticket_number row = generate_ticket_number year picks
          \<and> c_ticket_number row \<notin> set (map c_ticket_number (complaints s))"
    then obtain row where
      r: "complaints (snd (create_complaint s ident body now year picks)) = complaints s @ [row]"
      and t: "c_ticket_number row = generate_ticket_number year picks"
      and n: "c_ticket_number row \<notin> set (map c_ticket_number (complaints s))"
      by blast
    from assms(4) n f t show ?thesis
      unfolding r by auto
  qed
  with f i show ?thesis by blast
qed

theorem ticket_number_format_unique_witness:
  "generate_ticket_number 2024 q7_picks = ''TKT-2024-Q7Q7Q7''
   \<and> matches_ticket_pattern ''TKT-2024-Q7Q7Q7''
   \<and> fst (fst (create_complaint ex_store 1 (Some ex_new_body) 300 2024 q7_picks)) = 201
   \<and> map c_ticket_number (complaints (snd (create_complaint ex_store 1 (Some ex_new_body) 300 2024 q7_picks)))
       = [''TKT-2024-ABC123'', ''TKT-2024-XYZ789'', ''TKT-2024-Q7Q7Q7'']
   \<and> distinct (map c_ticket_number
        (complaints (snd (create_complaint ex_store 1 (Some ex_new_body) 300 2024 q7_picks))))
   \<and> create_complaint ex_store 1 (Some ex_new_body) 300 2024 abc123_picks = ((500, NoData), ex_store)"
proof -
  have h1: "(1000::nat) \<le> 2024" and h2: "(2024::nat) \<le> 9999" by simp_all
  have h3: "\<forall>j<6. q7_picks j < 36" by (simp add: q7_picks_def)
  have h4: "distinct (map c_ticket_number (complaints ex_store))" by code_simp
  note t = ticket_number_format_unique [OF h1 h2 h3 h4, of undefined 1 "Some ex_new_body" 300]
  have g: "generate_ticket_number 2024 q7_picks = ''TKT-2024-Q7Q7Q7''" by code_simp
  have e: "fst (fst (create_complaint ex_store 1 (Some ex_new_body) 300 2024 q7_picks)) = 201
     \<and> map c_ticket_number (complaints (snd (create_complaint ex_store 1 (Some ex_new_body) 300 2024 q7_picks)))
       = [''TKT-2024-ABC123'', ''TKT-2024-XYZ789'', ''TKT-2024-Q7Q7Q7'']"
    by code_simp
  have c: "create_complaint ex_store 1 (Some ex_new_body) 300 2024 abc123_picks = ((500, NoData), ex_store)"
    by code_simp
  from t g e c show ?thesis by simp
qed

end
